theory Spec2Isabelle
  imports Main "HOL-Library.Word"
begin

section \<open>Data model used by \<^verbatim>\<open>orderer/main.go\<close>\<close>

text \<open>
  The orderer's entry point (\<^verbatim>\<open>src/orderer/main.go\<close>) is written against the
  interfaces of its collaborator packages (\<^verbatim>\<open>ab\<close>, \<^verbatim>\<open>rawledger\<close>,
  \<^verbatim>\<open>configtx\<close>, \<^verbatim>\<open>policies\<close>, \<^verbatim>\<open>config\<close>, \<^verbatim>\<open>solo\<close>,
  \<^verbatim>\<open>kafka\<close>).  Their method bodies are passed to the model as parameters; the
  data they exchange is declared with the fields that \<^verbatim>\<open>main.go\<close> reads.
\<close>

type_synonym bytes = "8 word list"

text \<open>A Go \<^verbatim>\<open>error\<close> value, identified with its message.\<close>

type_synonym error = string

text \<open>
  \<^verbatim>\<open>ab.BroadcastMessage\<close>: the scan reads \<^verbatim>\<open>.Data\<close>.  Whatever else a
  message carries sits in the record's extension, so the functions below are stated for
  every \<open>'a BroadcastMessage_scheme\<close>.
\<close>

record BroadcastMessage =
  Data :: bytes

text \<open>
  \<^verbatim>\<open>ab.Block\<close>: the scan reads \<^verbatim>\<open>.Messages\<close>, a slice of messages; the
  block's other fields sit in the record's extension.
\<close>

record 'm Block =
  Messages :: "'m list"

text \<open>
  Modelled from the spec: the enumeration \<^verbatim>\<open>ab.Status\<close> is declared outside the
  files at hand; the spec names \<^verbatim>\<open>SUCCESS\<close>, \<^verbatim>\<open>BAD_REQUEST\<close>,
  \<^verbatim>\<open>NOT_FOUND\<close> and \<^verbatim>\<open>SERVICE_UNAVAILABLE\<close>.  The code only compares a
  status with \<^verbatim>\<open>ab.Status_SUCCESS\<close>.
\<close>

datatype Status = SUCCESS | BAD_REQUEST | NOT_FOUND | SERVICE_UNAVAILABLE

text \<open>
  Modelled from the spec: the seek positions of \<^verbatim>\<open>ab.SeekInfo\<close>
  (\<^verbatim>\<open>OLDEST\<close>, \<^verbatim>\<open>NEWEST\<close>, \<^verbatim>\<open>SPECIFIED\<close>).
\<close>

datatype SeekInfo_Start = SeekInfo_NEWEST | SeekInfo_OLDEST | SeekInfo_SPECIFIED

text \<open>Every value the entry point can panic with.\<close>

datatype panic_value =
    InvalidOrdererType
  | ErrorParsingBlockchain Status
  | ConfigManagerError error
  | UnknownGenesisMethod string
  | ErrorRetrievingGenesisBlock error
  | ErrorCreatingTempDir error
  | NoChainConfigurationFound
  | ListenError error

section \<open>The bootstrap scan: \<^verbatim>\<open>retrieveConfiguration\<close>\<close>

text \<open>
  A \<^verbatim>\<open>rawledger.Iterator\<close> is a cursor of some state type \<open>'c\<close> with two methods:
  \<open>ReadyChan\<close> tells whether a receive on the cursor's ready channel succeeds
  immediately (the \<^verbatim>\<open>select\<close> has a \<^verbatim>\<open>default\<close> branch, so the receive never
  waits), and \<open>Next\<close> returns a block, a status and the advanced cursor.
  \<open>Unmarshal\<close> is \<^verbatim>\<open>proto.Unmarshal\<close> into a fresh
  \<^verbatim>\<open>ab.ConfigurationEnvelope\<close>: \<open>None\<close> when it returns an error.

  The \<^verbatim>\<open>for { select { ... } }\<close> loop of lines 77-99 has no bound of its own, so
  the model is a partial function: \<open>None\<close> stands for a loop that never leaves,
  \<open>Some (Inl p)\<close> for a panic with \<open>p\<close>, \<open>Some (Inr r)\<close> for \<^verbatim>\<open>return r\<close>
  (\<open>r = None\<close> is the nil pointer).
\<close>

partial_function (option) retrieveConfiguration_loop ::
  "('c \<Rightarrow> bool)
    \<Rightarrow> ('c \<Rightarrow> (('a BroadcastMessage_scheme, 'b) Block_scheme \<times> Status) \<times> 'c)
    \<Rightarrow> (bytes \<Rightarrow> 'ce option)
    \<Rightarrow> 'c \<Rightarrow> 'ce option \<Rightarrow> (panic_value + 'ce option) option"
where
  "retrieveConfiguration_loop ReadyChan Next Unmarshal it lastConfigTx =
    (if ReadyChan it then
       (case Next it of ((block, status), it') \<Rightarrow>
          if status \<noteq> SUCCESS then Some (Inl (ErrorParsingBlockchain status))
          else if length (Messages block) \<noteq> 1
            then retrieveConfiguration_loop ReadyChan Next Unmarshal it' lastConfigTx
          else (case Unmarshal (Data (Messages block ! 0)) of
                  Some maybeConfigTx \<Rightarrow>
                    retrieveConfiguration_loop ReadyChan Next Unmarshal it' (Some maybeConfigTx)
                | None \<Rightarrow>
                    retrieveConfiguration_loop ReadyChan Next Unmarshal it' lastConfigTx))
     else Some (Inr lastConfigTx))"

declare retrieveConfiguration_loop.simps [code]

text \<open>
  \<^verbatim>\<open>rl.Iterator(ab.SeekInfo_OLDEST, 0)\<close> of line 74: the reader's method is the
  parameter \<open>Iterator\<close>; the position it also returns is discarded.
\<close>

definition retrieveConfiguration ::
  "('l \<Rightarrow> SeekInfo_Start \<Rightarrow> 64 word \<Rightarrow> 'c \<times> 64 word) \<Rightarrow> ('c \<Rightarrow> bool)
    \<Rightarrow> ('c \<Rightarrow> (('a BroadcastMessage_scheme, 'b) Block_scheme \<times> Status) \<times> 'c)
    \<Rightarrow> (bytes \<Rightarrow> 'ce option)
    \<Rightarrow> 'l \<Rightarrow> (panic_value + 'ce option) option"
where
  "retrieveConfiguration Iterator ReadyChan Next Unmarshal rl =
    (let it = fst (Iterator rl SeekInfo_OLDEST 0)
     in retrieveConfiguration_loop ReadyChan Next Unmarshal it None)"


section \<open>The stand-in crypto helper and the configuration manager\<close>

text \<open>\<^verbatim>\<open>xxxCryptoHelper.VerifySignature\<close>, lines 59-65.\<close>

definition VerifySignature :: "bytes \<Rightarrow> bytes \<Rightarrow> bytes \<Rightarrow> bool" where
  "VerifySignature msg ids sigs = True"

text \<open>
  A \<^verbatim>\<open>configtx.Handler\<close> stored in the handler map is either the policy manager
  itself or the result of \<^verbatim>\<open>configtx.NewBytesHandler()\<close>.  The identity of the
  individual bytes-handler objects is not modelled.
\<close>

datatype 'pm Handler = PolicyManager 'pm | BytesHandler

text \<open>
  \<^verbatim>\<open>ab.Configuration_ConfigurationType\<close> is an \<^verbatim>\<open>int32\<close>: 32 bits, read as
  signed with \<open>sint\<close>.
\<close>

type_synonym ConfigurationType = "32 word"

section \<open>Process configuration\<close>

text \<open>
  Modelled from the spec: \<^verbatim>\<open>config.TopLevel\<close> is declared outside the files at
  hand.  The records carry the fields \<^verbatim>\<open>main.go\<close> reads, which are the operating
  parameters the spec lists for the process-configuration loader.  The sizes are Go's
  \<^verbatim>\<open>uint\<close>, 64 bits wide; \<^verbatim>\<open>main.go\<close> passes them on through the conversion
  \<^verbatim>\<open>int(...)\<close>, which keeps the 64 bits and reads them as a signed number: that is
  \<open>sint\<close>, and a size from \<open>2 ^ 63\<close> on becomes negative.  The batch timeout is a
  \<^verbatim>\<open>time.Duration\<close>, the Kafka version its list of components.
\<close>

record General =
  OrdererType :: string
  ListenAddress :: string
  ListenPort :: nat
  GenesisMethod :: string
  QueueSize :: "64 word"
  BatchSize :: "64 word"
  MaxWindowSize :: "64 word"
  BatchTimeout :: int

record FileLedger =
  Location :: string
  Prefix :: string

record RAMLedger =
  HistorySize :: "64 word"

record Kafka =
  Version :: "nat list"

record TopLevel =
  General :: General
  FileLedger :: FileLedger
  RAMLedger :: RAMLedger
  Kafka :: Kafka

text \<open>\<^verbatim>\<open>sarama.V0_9_0_1\<close>.\<close>

definition V0_9_0_1 :: "nat list" where
  "V0_9_0_1 = [0, 9, 0, 1]"

section \<open>Collaborators of the entry point\<close>

text \<open>
  A listener is identified by the address and port it was opened on
  (\<^verbatim>\<open>fmt.Sprintf("%s:%d", ...)\<close> is kept as the pair of its two arguments).
\<close>

datatype Listener = Listener string nat

type_synonym block = "BroadcastMessage Block"

text \<open>
  Everything \<^verbatim>\<open>main.go\<close> calls outside itself.  \<open>'l\<close> is a ledger
  (\<^verbatim>\<open>rawledger.ReadWriter\<close>), \<open>'c\<close> a cursor, \<open>'ce\<close> a
  \<^verbatim>\<open>ab.ConfigurationEnvelope\<close>, \<open>'pm\<close> a policy manager and \<open>'cm\<close> a
  \<^verbatim>\<open>configtx.Manager\<close>.  A call that returns \<^verbatim>\<open>(value, error)\<close> is a sum with the
  error on the left.  \<open>flag_loglevel\<close> and \<open>flag_verbose\<close> are the values of the two
  command-line flags when given; \<open>interrupt\<close> tells whether \<^verbatim>\<open>os.Interrupt\<close> is
  ever delivered to the process.
\<close>

record ('l, 'c, 'ce, 'pm, 'cm) collaborators =
  config_Load :: TopLevel
  net_Listen :: "string \<Rightarrow> nat \<Rightarrow> error + Listener"
  GenesisBlock :: "error + block"
  os_Getenv :: "string \<Rightarrow> string"
  ioutil_TempDir :: "string \<Rightarrow> string \<Rightarrow> error + string"
  fileledger_New :: "string \<Rightarrow> block \<Rightarrow> 'l"
  ramledger_New :: "int \<Rightarrow> block \<Rightarrow> 'l"
  Iterator :: "'l \<Rightarrow> SeekInfo_Start \<Rightarrow> 64 word \<Rightarrow> 'c \<times> 64 word"
  ReadyChan :: "'c \<Rightarrow> bool"
  Next :: "'c \<Rightarrow> (block \<times> Status) \<times> 'c"
  proto_Unmarshal :: "bytes \<Rightarrow> 'ce option"
  NewManagerImpl :: "(bytes \<Rightarrow> bytes \<Rightarrow> bytes \<Rightarrow> bool) \<Rightarrow> 'pm"
  Configuration_ConfigurationType_name :: "(ConfigurationType \<times> string) list"
  Configuration_Policy :: ConfigurationType
  NewConfigurationManager ::
    "'ce \<Rightarrow> 'pm \<Rightarrow> (ConfigurationType \<rightharpoonup> 'pm Handler) \<Rightarrow> error + 'cm"
  flag_loglevel :: "string option"
  flag_verbose :: "bool option"
  interrupt :: bool

text \<open>
  The calls the two launch functions and \<^verbatim>\<open>main\<close> make, in the order they make
  them: a run is logged as the list of these.
\<close>

datatype call =
    Call_config_Load
  | Call_grpc_NewServer
  | Call_net_Listen
  | Call_fmt_Println
  | Call_static_New
  | Call_GenesisBlock
  | Call_os_Getenv
  | Call_ioutil_TempDir
  | Call_fileledger_New
  | Call_ramledger_New
  | Call_retrieveConfiguration
  | Call_bootstrapConfigManager
  | Call_solo_New
  | Call_Serve
  | Call_flag_Parse
  | Call_kafka_SetLogLevel
  | Call_log_New
  | Call_kafka_New
  | Call_RegisterAtomicBroadcastServer
  | Call_signal_Notify
  | Call_Teardown

text \<open>
  The arguments of \<^verbatim>\<open>solo.New\<close> (line 178), the gRPC server apart.  The three
  sizes are Go's \<^verbatim>\<open>int\<close>, given by their value.
\<close>

record 'l solo_args =
  queueSize :: int
  batchSize :: int
  maxWindowSize :: int
  batchTimeout :: int
  rl :: 'l

text \<open>What \<^verbatim>\<open>kafka.New\<close> and the Kafka logging are set up with (lines 183-200).\<close>

record kafka_args =
  kafka_conf :: TopLevel
  loglevel :: string
  sarama_logging :: bool

text \<open>
  How a launch ends: it returns, it panics, or it stays in \<^verbatim>\<open>Serve\<close> with the
  given service on the given listener.
\<close>

datatype 'l outcome =
    Returned
  | Panicked panic_value
  | SoloServing "'l solo_args" Listener
  | KafkaServing kafka_args Listener

type_synonym 'l run = "call list \<times> 'l outcome"

section \<open>\<^verbatim>\<open>bootstrapConfigManager\<close>\<close>

text \<open>
  Lines 104-113: the loop over the keys of
  \<^verbatim>\<open>ab.Configuration_ConfigurationType_name\<close>, as a fold over the table's keys
  (Go fixes no order for them).
\<close>

definition configHandlerMap ::
  "('l, 'c, 'ce, 'pm, 'cm) collaborators \<Rightarrow> 'pm \<Rightarrow> (ConfigurationType \<rightharpoonup> 'pm Handler)"
where
  "configHandlerMap w policyManager =
    fold (\<lambda>ctype m.
            let rtype = ctype
            in if rtype = Configuration_Policy w
               then m(rtype \<mapsto> PolicyManager policyManager)
               else m(rtype \<mapsto> BytesHandler))
         (map fst (Configuration_ConfigurationType_name w)) Map.empty"

definition bootstrapConfigManager ::
  "('l, 'c, 'ce, 'pm, 'cm) collaborators \<Rightarrow> 'ce \<Rightarrow> panic_value + 'cm"
where
  "bootstrapConfigManager w lastConfigTx =
    (let policyManager = NewManagerImpl w VerifySignature
     in case NewConfigurationManager w lastConfigTx policyManager
               (configHandlerMap w policyManager) of
          Inl err \<Rightarrow> Inl (ConfigManagerError err)
        | Inr configManager \<Rightarrow> Inr configManager)"

section \<open>\<^verbatim>\<open>launchSolo\<close>, \<^verbatim>\<open>launchKafka\<close> and \<^verbatim>\<open>main\<close>\<close>

text \<open>
  Lines 147-166 of \<^verbatim>\<open>launchSolo\<close>: the choice of the ledger, with the calls it
  makes.  \<^verbatim>\<open>int(conf.RAMLedger.HistorySize)\<close> of line 165 is \<open>sint\<close>.
\<close>

definition launchSolo_rawledger ::
  "('l, 'c, 'ce, 'pm, 'cm) collaborators \<Rightarrow> TopLevel \<Rightarrow> block \<Rightarrow> call list \<times> (panic_value + 'l)"
where
  "launchSolo_rawledger w conf genesisBlock =
    (let ledgerType = os_Getenv w ''ORDERER_LEDGER_TYPE''
     in if ledgerType = ''file'' then
          (let location = Location (FileLedger conf)
           in if location = [] then
                (case ioutil_TempDir w [] (Prefix (FileLedger conf)) of
                   Inl err \<Rightarrow>
                     ([Call_os_Getenv, Call_ioutil_TempDir], Inl (ErrorCreatingTempDir err))
                 | Inr location' \<Rightarrow>
                     ([Call_os_Getenv, Call_ioutil_TempDir, Call_fileledger_New],
                      Inr (fileledger_New w location' genesisBlock)))
              else ([Call_os_Getenv, Call_fileledger_New],
                    Inr (fileledger_New w location genesisBlock)))
        else ([Call_os_Getenv, Call_ramledger_New],
              Inr (ramledger_New w (sint (HistorySize (RAMLedger conf))) genesisBlock)))"

text \<open>
  Lines 168-179, from the scan on.  The configuration manager is bound to
  \<^verbatim>\<open>configManager\<close> and assigned to the blank identifier (line 176); \<^verbatim>\<open>solo.New\<close>
  gets the arguments of line 178, each size through \<^verbatim>\<open>int(...)\<close>, which is
  \<open>sint\<close>.
\<close>

definition launchSolo_bootstrap ::
  "('l, 'c, 'ce, 'pm, 'cm) collaborators \<Rightarrow> TopLevel \<Rightarrow> Listener \<Rightarrow> 'l \<Rightarrow> 'l run option"
where
  "launchSolo_bootstrap w conf lis rawledger =
    (case retrieveConfiguration (Iterator w) (ReadyChan w) (Next w) (proto_Unmarshal w)
            rawledger of
       None \<Rightarrow> None
     | Some (Inl p) \<Rightarrow> Some ([Call_retrieveConfiguration], Panicked p)
     | Some (Inr None) \<Rightarrow>
         Some ([Call_retrieveConfiguration], Panicked NoChainConfigurationFound)
     | Some (Inr (Some lastConfigTx)) \<Rightarrow>
         (case bootstrapConfigManager w lastConfigTx of
            Inl p \<Rightarrow>
              Some ([Call_retrieveConfiguration, Call_bootstrapConfigManager], Panicked p)
          | Inr configManager \<Rightarrow>
              Some ([Call_retrieveConfiguration, Call_bootstrapConfigManager,
                     Call_solo_New, Call_Serve],
                    SoloServing
                      \<lparr>queueSize = sint (QueueSize (General conf)),
                       batchSize = sint (BatchSize (General conf)),
                       maxWindowSize = sint (MaxWindowSize (General conf)),
                       batchTimeout = BatchTimeout (General conf),
                       rl = rawledger\<rparr> lis)))"

definition launchSolo ::
  "('l, 'c, 'ce, 'pm, 'cm) collaborators \<Rightarrow> TopLevel \<Rightarrow> 'l run option"
where
  "launchSolo w conf =
    (case net_Listen w (ListenAddress (General conf)) (ListenPort (General conf)) of
       Inl err \<Rightarrow> Some ([Call_grpc_NewServer, Call_net_Listen, Call_fmt_Println], Returned)
     | Inr lis \<Rightarrow>
         if GenesisMethod (General conf) \<noteq> ''static'' then
           Some ([Call_grpc_NewServer, Call_net_Listen],
                 Panicked (UnknownGenesisMethod (GenesisMethod (General conf))))
         else
           (case GenesisBlock w of
              Inl err \<Rightarrow>
                Some ([Call_grpc_NewServer, Call_net_Listen, Call_static_New, Call_GenesisBlock],
                      Panicked (ErrorRetrievingGenesisBlock err))
            | Inr genesisBlock \<Rightarrow>
                (case launchSolo_rawledger w conf genesisBlock of
                   (tr1, Inl p) \<Rightarrow>
                     Some ([Call_grpc_NewServer, Call_net_Listen, Call_static_New,
                            Call_GenesisBlock] @ tr1, Panicked p)
                 | (tr1, Inr rawledger) \<Rightarrow>
                     (case launchSolo_bootstrap w conf lis rawledger of
                        None \<Rightarrow> None
                      | Some (tr2, out) \<Rightarrow>
                          Some ([Call_grpc_NewServer, Call_net_Listen, Call_static_New,
                                 Call_GenesisBlock] @ tr1 @ tr2, out)))))"

text \<open>
  \<^verbatim>\<open>launchKafka\<close>, lines 182-221.  The deferred \<^verbatim>\<open>Teardown\<close> runs when the
  function returns and when it panics.  Without an interrupt the function stays in the
  loop over the signal channel while the server serves.
\<close>

definition launchKafka ::
  "('l, 'c, 'ce, 'pm, 'cm) collaborators \<Rightarrow> TopLevel \<Rightarrow> 'l run option"
where
  "launchKafka w conf =
    (let conf' = conf\<lparr>Kafka := (Kafka conf)\<lparr>Version := V0_9_0_1\<rparr>\<rparr>;
         loglevel = (case flag_loglevel w of None \<Rightarrow> ''info'' | Some v \<Rightarrow> v);
         verbose = (case flag_verbose w of None \<Rightarrow> False | Some v \<Rightarrow> v);
         tr = [Call_flag_Parse, Call_kafka_SetLogLevel]
              @ (if verbose then [Call_log_New] else [])
              @ [Call_kafka_New, Call_net_Listen]
     in case net_Listen w (ListenAddress (General conf')) (ListenPort (General conf')) of
          Inl err \<Rightarrow> Some (tr @ [Call_Teardown], Panicked (ListenError err))
        | Inr lis \<Rightarrow>
            (let tr' = tr @ [Call_grpc_NewServer, Call_RegisterAtomicBroadcastServer,
                             Call_Serve, Call_signal_Notify]
             in if interrupt w
                then Some (tr' @ [Call_fmt_Println, Call_Teardown], Returned)
                else Some (tr', KafkaServing
                                  \<lparr>kafka_conf = conf', loglevel = loglevel,
                                   sarama_logging = verbose\<rparr> lis)))"

text \<open>\<^verbatim>\<open>main\<close>, lines 46-57.\<close>

definition main :: "('l, 'c, 'ce, 'pm, 'cm) collaborators \<Rightarrow> 'l run option" where
  "main w =
    (let conf = config_Load w
     in if OrdererType (General conf) = ''solo'' then
          map_option (\<lambda>(tr, out). (Call_config_Load # tr, out)) (launchSolo w conf)
        else if OrdererType (General conf) = ''kafka'' then
          map_option (\<lambda>(tr, out). (Call_config_Load # tr, out)) (launchKafka w conf)
        else Some ([Call_config_Load], Panicked InvalidOrdererType))"

section \<open>The wire-level message type of \<^verbatim>\<open>protos/fabric_next.proto\<close>\<close>

text \<open>\<^verbatim>\<open>Message2.Type\<close>, lines 82-109, with the tag and the name of each value.\<close>

datatype Message2_Type =
    UNDEFINED
  | DISCOVERY
  | SYNC
  | PROPOSAL
  | PROPOSAL_SET
  | PROPOSAL_RESULT
  | PROPOSAL_SET_RESULT
  | TRANSACTION

fun Message2_Type_value :: "Message2_Type \<Rightarrow> 32 word" where
  "Message2_Type_value UNDEFINED = 0"
| "Message2_Type_value DISCOVERY = 1"
| "Message2_Type_value SYNC = 2"
| "Message2_Type_value PROPOSAL = 3"
| "Message2_Type_value PROPOSAL_SET = 4"
| "Message2_Type_value PROPOSAL_RESULT = 5"
| "Message2_Type_value PROPOSAL_SET_RESULT = 6"
| "Message2_Type_value TRANSACTION = 7"

fun Message2_Type_name :: "Message2_Type \<Rightarrow> string" where
  "Message2_Type_name UNDEFINED = ''UNDEFINED''"
| "Message2_Type_name DISCOVERY = ''DISCOVERY''"
| "Message2_Type_name SYNC = ''SYNC''"
| "Message2_Type_name PROPOSAL = ''PROPOSAL''"
| "Message2_Type_name PROPOSAL_SET = ''PROPOSAL_SET''"
| "Message2_Type_name PROPOSAL_RESULT = ''PROPOSAL_RESULT''"
| "Message2_Type_name PROPOSAL_SET_RESULT = ''PROPOSAL_SET_RESULT''"
| "Message2_Type_name TRANSACTION = ''TRANSACTION''"

text \<open>The declared values, in the order of the file.\<close>

definition Message2_Type_values :: "Message2_Type list" where
  "Message2_Type_values =
    [UNDEFINED, DISCOVERY, SYNC, PROPOSAL, PROPOSAL_SET, PROPOSAL_RESULT,
     PROPOSAL_SET_RESULT, TRANSACTION]"


section \<open>Notions used to state the properties\<close>

text \<open>
  \<open>available_chain ready nxt it evs\<close>: polled from the cursor \<open>it\<close>, the
  ledger hands out exactly the results \<open>evs\<close>, one per ready poll, and is then not
  ready.
\<close>

fun available_chain ::
  "('c \<Rightarrow> bool) \<Rightarrow> ('c \<Rightarrow> ('blk \<times> Status) \<times> 'c) \<Rightarrow> 'c \<Rightarrow> ('blk \<times> Status) list \<Rightarrow> bool"
where
  "available_chain ready nxt it [] = (\<not> ready it)"
| "available_chain ready nxt it (e # es) =
    (ready it \<and> fst (nxt it) = e \<and> available_chain ready nxt (snd (nxt it)) es)"

text \<open>
  The configuration a block stands for, in the words of the specification: a block of
  exactly one message whose bytes parse as a configuration envelope.
\<close>

definition configuration_of_block ::
  "(bytes \<Rightarrow> 'ce option) \<Rightarrow> ('a BroadcastMessage_scheme, 'b) Block_scheme \<Rightarrow> 'ce option"
where
  "configuration_of_block Unmarshal block =
    (case Messages block of [m] \<Rightarrow> Unmarshal (Data m) | _ \<Rightarrow> None)"

text \<open>Last one wins: the last configuration among the blocks, if there is any.\<close>

definition last_configuration ::
  "(bytes \<Rightarrow> 'ce option) \<Rightarrow> ('a BroadcastMessage_scheme, 'b) Block_scheme list \<Rightarrow> 'ce option"
where
  "last_configuration Unmarshal blocks =
    (case List.map_filter (configuration_of_block Unmarshal) blocks of
       [] \<Rightarrow> None
     | c # cs \<Rightarrow> Some (last (c # cs)))"

text \<open>
  \<open>not_ready_within ready nxt n it\<close>: one of the first \<open>n + 1\<close> polls, each
  but the first after a \<open>nxt\<close>, finds the ready channel not ready.
\<close>

fun not_ready_within ::
  "('c \<Rightarrow> bool) \<Rightarrow> ('c \<Rightarrow> ('blk \<times> Status) \<times> 'c) \<Rightarrow> nat \<Rightarrow> 'c \<Rightarrow> bool"
where
  "not_ready_within ready nxt 0 it = (\<not> ready it)"
| "not_ready_within ready nxt (Suc n) it =
    (\<not> ready it \<or> not_ready_within ready nxt n (snd (nxt it)))"

text \<open>
  \<open>Next_fails_after ready nxt n it st\<close>: the cursor is ready \<open>n + 1\<close> times
  in a row, the first \<open>n\<close> calls of \<open>nxt\<close> return \<^verbatim>\<open>SUCCESS\<close>, and the next
  one returns the status \<open>st\<close>, which is not \<^verbatim>\<open>SUCCESS\<close>.
\<close>

fun Next_fails_after ::
  "('c \<Rightarrow> bool) \<Rightarrow> ('c \<Rightarrow> ('blk \<times> Status) \<times> 'c) \<Rightarrow> nat \<Rightarrow> 'c \<Rightarrow> Status \<Rightarrow> bool"
where
  "Next_fails_after ready nxt 0 it st =
    (ready it \<and> snd (fst (nxt it)) = st \<and> st \<noteq> SUCCESS)"
| "Next_fails_after ready nxt (Suc n) it st =
    (ready it \<and> snd (fst (nxt it)) = SUCCESS
      \<and> Next_fails_after ready nxt n (snd (nxt it)) st)"

text \<open>
  The three bootstrap failures of the solo path: the genesis-block provider returns an
  error; the \<open>n + 1\<close>-th \<^verbatim>\<open>Next\<close> of the scan returns a status other than
  \<^verbatim>\<open>SUCCESS\<close>; the scan reads the whole chain \<open>evs\<close> and finds no configuration
  in it.  \<open>bootstrap_fails w conf f\<close> tells whether the failure \<open>f\<close> is what the
  collaborators \<open>w\<close> produce, and \<open>failure_panic f\<close> is the panic that goes with it.
\<close>

datatype bootstrap_failure =
    GenesisBlock_error error
  | Next_status nat Status
  | No_configuration "(block \<times> Status) list"

fun failure_panic :: "bootstrap_failure \<Rightarrow> panic_value" where
  "failure_panic (GenesisBlock_error err) = ErrorRetrievingGenesisBlock err"
| "failure_panic (Next_status n st) = ErrorParsingBlockchain st"
| "failure_panic (No_configuration evs) = NoChainConfigurationFound"

fun scan_fails ::
  "('l, 'c, 'ce, 'pm, 'cm) collaborators \<Rightarrow> 'c \<Rightarrow> bootstrap_failure \<Rightarrow> bool"
where
  "scan_fails w it (GenesisBlock_error err) = False"
| "scan_fails w it (Next_status n st) = Next_fails_after (ReadyChan w) (Next w) n it st"
| "scan_fails w it (No_configuration evs) =
    (available_chain (ReadyChan w) (Next w) it evs
      \<and> list_all (\<lambda>e. snd e = SUCCESS) evs
      \<and> last_configuration (proto_Unmarshal w) (map fst evs) = None)"

definition bootstrap_fails ::
  "('l, 'c, 'ce, 'pm, 'cm) collaborators \<Rightarrow> TopLevel \<Rightarrow> bootstrap_failure \<Rightarrow> bool"
where
  "bootstrap_fails w conf f =
    (case GenesisBlock w of
       Inl err \<Rightarrow> f = GenesisBlock_error err
     | Inr genesisBlock \<Rightarrow>
         (case snd (launchSolo_rawledger w conf genesisBlock) of
            Inl p \<Rightarrow> False
          | Inr rawledger \<Rightarrow> scan_fails w (fst (Iterator w rawledger SeekInfo_OLDEST 0)) f))"

section \<open>A finite ledger for concrete runs\<close>

text \<open>
  A ledger held as the list of what its cursor returns, oldest first; a cursor is the
  list still to come.  The theorems below are instantiated with it.
\<close>

definition list_Iterator ::
  "('blk \<times> Status) list \<Rightarrow> SeekInfo_Start \<Rightarrow> 64 word \<Rightarrow> ('blk \<times> Status) list \<times> 64 word"
where
  "list_Iterator l start specified =
    (case start of
       SeekInfo_OLDEST \<Rightarrow> (l, 0)
     | SeekInfo_NEWEST \<Rightarrow> (drop (length l - 1) l, of_nat (length l - 1))
     | SeekInfo_SPECIFIED \<Rightarrow> (drop (unat specified) l, specified))"

definition list_ReadyChan :: "('blk \<times> Status) list \<Rightarrow> bool" where
  "list_ReadyChan c = (c \<noteq> [])"

definition list_Next ::
  "(block \<times> Status) list \<Rightarrow> (block \<times> Status) \<times> (block \<times> Status) list"
where
  "list_Next c =
    (case c of
       [] \<Rightarrow> ((\<lparr>Messages = []\<rparr>, SERVICE_UNAVAILABLE), [])
     | e # es \<Rightarrow> (e, es))"

text \<open>
  Three payloads and a parser that takes the second and the third for configuration
  envelopes, named \<open>''configA''\<close> and \<open>''configB''\<close>.
\<close>

definition tx :: BroadcastMessage where
  "tx = \<lparr>Data = [1]\<rparr>"

definition configA :: BroadcastMessage where
  "configA = \<lparr>Data = [2]\<rparr>"

definition configB :: BroadcastMessage where
  "configB = \<lparr>Data = [3]\<rparr>"

definition example_Unmarshal :: "bytes \<Rightarrow> string option" where
  "example_Unmarshal d =
    (if d = [2] then Some ''configA'' else if d = [3] then Some ''configB'' else None)"

definition committed :: "BroadcastMessage list \<Rightarrow> block \<times> Status" where
  "committed ms = (\<lparr>Messages = ms\<rparr>, SUCCESS)"

text \<open>The two ledgers of the specification's examples.\<close>

definition example_ledger :: "(block \<times> Status) list" where
  "example_ledger =
    [committed [tx], committed [tx], committed [configA], committed [tx],
     committed [configB], committed [tx]]"

definition multi_message_ledger :: "(block \<times> Status) list" where
  "multi_message_ledger = [committed [configA, tx]]"


section \<open>A concrete set of collaborators\<close>

text \<open>
  A ledger that remembers how it was made, a configuration whose orderer type and
  file-ledger location can be chosen, and collaborators that listen successfully and
  hand out the given genesis result, environment value, chain and configuration
  manager.  A policy manager is the verifier it was given; a configuration manager is
  its authorisation decision on an envelope.
\<close>

datatype ledger_impl = File_ledger string block | RAM_ledger int block

definition example_conf :: "string \<Rightarrow> string \<Rightarrow> TopLevel" where
  "example_conf ordererType location =
    \<lparr>General = \<lparr>OrdererType = ordererType, ListenAddress = ''127.0.0.1'',
                 ListenPort = 5151, GenesisMethod = ''static'', QueueSize = 1000,
                 BatchSize = 10, MaxWindowSize = 1000, BatchTimeout = 10000000000\<rparr>,
     FileLedger = \<lparr>Location = location, Prefix = ''hyperledger''\<rparr>,
     RAMLedger = \<lparr>HistorySize = 10000\<rparr>,
     Kafka = \<lparr>Version = []\<rparr>\<rparr>"

text \<open>
  A configuration whose queue size is \<open>2 ^ 64 - 1\<close> and whose history size is
  \<open>2 ^ 63\<close>: the two sizes that \<^verbatim>\<open>int(...)\<close> turns into \<open>- 1\<close> and into
  \<open>- (2 ^ 63)\<close>.
\<close>

definition wrapping_conf :: TopLevel where
  "wrapping_conf =
    \<lparr>General = \<lparr>OrdererType = ''solo'', ListenAddress = ''127.0.0.1'',
                 ListenPort = 5151, GenesisMethod = ''static'',
                 QueueSize = 18446744073709551615, BatchSize = 10, MaxWindowSize = 1000,
                 BatchTimeout = 10000000000\<rparr>,
     FileLedger = \<lparr>Location = [], Prefix = ''hyperledger''\<rparr>,
     RAMLedger = \<lparr>HistorySize = 9223372036854775808\<rparr>,
     Kafka = \<lparr>Version = []\<rparr>\<rparr>"

definition accept_all :: "bytes \<Rightarrow> bool" where
  "accept_all envelope = True"

definition reject_all :: "bytes \<Rightarrow> bool" where
  "reject_all envelope = False"

definition example_world ::
  "TopLevel \<Rightarrow> string \<Rightarrow> error + block \<Rightarrow> (block \<times> Status) list \<Rightarrow> error + (bytes \<Rightarrow> bool)
    \<Rightarrow> (ledger_impl, (block \<times> Status) list, string, bytes \<Rightarrow> bytes \<Rightarrow> bytes \<Rightarrow> bool,
        bytes \<Rightarrow> bool) collaborators"
where
  "example_world conf ledgerType genesis chain manager =
    \<lparr>config_Load = conf,
     net_Listen = (\<lambda>address port. Inr (Listener address port)),
     GenesisBlock = genesis,
     os_Getenv = (\<lambda>key. if key = ''ORDERER_LEDGER_TYPE'' then ledgerType else []),
     ioutil_TempDir = (\<lambda>dir prefix. Inr (''/tmp/'' @ prefix)),
     fileledger_New = File_ledger,
     ramledger_New = RAM_ledger,
     Iterator = (\<lambda>l. list_Iterator chain),
     ReadyChan = list_ReadyChan,
     Next = list_Next,
     proto_Unmarshal = example_Unmarshal,
     NewManagerImpl = (\<lambda>cryptoHelper. cryptoHelper),
     Configuration_ConfigurationType_name = [(0, ''Policy''), (1, ''ChannelParameters'')],
     Configuration_Policy = 0,
     NewConfigurationManager = (\<lambda>lastConfigTx policyManager handlers. manager),
     flag_loglevel = None,
     flag_verbose = None,
     interrupt = False\<rparr>"


text \<open>A genesis block, and a chain whose second \<^verbatim>\<open>Next\<close> fails.\<close>

definition example_genesis :: block where
  "example_genesis = \<lparr>Messages = [configA]\<rparr>"

definition failing_ledger :: "(block \<times> Status) list" where
  "failing_ledger = [committed [configA], (\<lparr>Messages = []\<rparr>, SERVICE_UNAVAILABLE)]"

section \<open>Properties of the bootstrap scan\<close>

text \<open>One turn of the loop, case by case.\<close>

lemma retrieveConfiguration_loop_not_ready:
  "\<not> R it \<Longrightarrow> retrieveConfiguration_loop R N U it acc = Some (Inr acc)"
  by (subst retrieveConfiguration_loop.simps) simp

lemma retrieveConfiguration_loop_step:
  assumes "R it" and "snd (fst (N it)) = SUCCESS"
  shows "retrieveConfiguration_loop R N U it acc =
         retrieveConfiguration_loop R N U (snd (N it))
           (case configuration_of_block U (fst (fst (N it))) of Some c \<Rightarrow> Some c | None \<Rightarrow> acc)"
proof -
  obtain b s it' where n: "N it = ((b, s), it')" by (metis prod.collapse)
  with assms have s: "s = SUCCESS" by simp
  show ?thesis
  proof (cases "Messages b")
    case Nil
    with assms(1) n s show ?thesis
      by (subst retrieveConfiguration_loop.simps) (simp add: configuration_of_block_def)
  next
    case (Cons m ms)
    with assms(1) n s show ?thesis
      by (subst retrieveConfiguration_loop.simps)
         (cases ms; simp add: configuration_of_block_def split: option.splits)
  qed
qed

lemma retrieveConfiguration_loop_panic:
  assumes "R it" and "snd (fst (N it)) \<noteq> SUCCESS"
  shows "retrieveConfiguration_loop R N U it acc = Some (Inl (ErrorParsingBlockchain (snd (fst (N it)))))"
proof -
  obtain b s it' where n: "N it = ((b, s), it')" by (metis prod.collapse)
  with assms show ?thesis
    by (subst retrieveConfiguration_loop.simps) simp
qed

lemma retrieveConfiguration_loop_chain:
  "available_chain R N it evs \<Longrightarrow> \<forall>e\<in>set evs. snd e = SUCCESS \<Longrightarrow>
   retrieveConfiguration_loop R N U it acc =
     Some (Inr (case List.map_filter (configuration_of_block U) (map fst evs) of
                  [] \<Rightarrow> acc | c # cs \<Rightarrow> Some (last (c # cs))))"
proof (induction evs arbitrary: it acc)
  case Nil
  then show ?case by (simp add: retrieveConfiguration_loop_not_ready)
next
  case (Cons e evs)
  from Cons.prems have r: "R it" and e: "fst (N it) = e" and
    ch: "available_chain R N (snd (N it)) evs" and s: "snd e = SUCCESS"
    and rest: "\<forall>e\<in>set evs. snd e = SUCCESS" by simp_all
  from e s have s': "snd (fst (N it)) = SUCCESS" by simp
  have "retrieveConfiguration_loop R N U it acc =
        retrieveConfiguration_loop R N U (snd (N it))
          (case configuration_of_block U (fst e) of Some c \<Rightarrow> Some c | None \<Rightarrow> acc)"
    using retrieveConfiguration_loop_step[of R it N U acc, OF r s'] e by simp
  also have "\<dots> = Some (Inr (case List.map_filter (configuration_of_block U) (map fst evs) of
                  [] \<Rightarrow> (case configuration_of_block U (fst e) of Some c \<Rightarrow> Some c | None \<Rightarrow> acc)
                | c # cs \<Rightarrow> Some (last (c # cs))))"
    by (rule Cons.IH[OF ch rest])
  also have "\<dots> = Some (Inr (case List.map_filter (configuration_of_block U) (map fst (e # evs)) of
                  [] \<Rightarrow> acc | c # cs \<Rightarrow> Some (last (c # cs))))"
    by (simp split: option.splits list.splits)
  finally show ?case .
qed

lemma retrieveConfiguration_loop_terminates:
  "not_ready_within R N n it \<Longrightarrow> \<exists>r. retrieveConfiguration_loop R N U it acc = Some r"
proof (induction n arbitrary: it acc)
  case 0
  then show ?case by (simp add: retrieveConfiguration_loop_not_ready)
next
  case (Suc n)
  show ?case
  proof (cases "R it")
    case False
    then show ?thesis by (simp add: retrieveConfiguration_loop_not_ready)
  next
    case True
    with Suc.prems have nr: "not_ready_within R N n (snd (N it))" by simp
    show ?thesis
    proof (cases "snd (fst (N it)) = SUCCESS")
      case True
      with \<open>R it\<close> Suc.IH[OF nr] show ?thesis by (simp add: retrieveConfiguration_loop_step)
    next
      case False
      with \<open>R it\<close> show ?thesis by (simp add: retrieveConfiguration_loop_panic)
    qed
  qed
qed


lemma retrieveConfiguration_loop_fails:
  "Next_fails_after R N n it st \<Longrightarrow>
   retrieveConfiguration_loop R N U it acc = Some (Inl (ErrorParsingBlockchain st))"
proof (induction n arbitrary: it acc)
  case 0
  then show ?case using retrieveConfiguration_loop_panic[of R it N U acc] by simp
next
  case (Suc n)
  then show ?case using retrieveConfiguration_loop_step[of R it N U acc] by simp
qed


lemma last_configuration_single:
  "last_configuration U (filter (\<lambda>b. length (Messages b) = 1) bs) = last_configuration U bs"
proof -
  have "List.map_filter (configuration_of_block U) (filter (\<lambda>b. length (Messages b) = 1) bs)
        = List.map_filter (configuration_of_block U) bs"
  proof (induction bs)
    case Nil
    show ?case by simp
  next
    case (Cons b bs)
    have "length (Messages b) \<noteq> 1 \<Longrightarrow> configuration_of_block U b = None"
      by (cases "Messages b"; simp add: configuration_of_block_def split: list.splits)
    with Cons show ?case
      by (cases "length (Messages b) = 1") (simp_all split: option.splits)
  qed
  then show ?thesis by (simp add: last_configuration_def)
qed

lemma retrieveConfiguration_chain:
  assumes "available_chain R N (fst (I l SeekInfo_OLDEST 0)) evs"
      and "\<forall>e\<in>set evs. snd e = SUCCESS"
  shows "retrieveConfiguration I R N U l = Some (Inr (last_configuration U (map fst evs)))"
  using retrieveConfiguration_loop_chain[OF assms, of U None]
  by (simp add: retrieveConfiguration_def last_configuration_def)

text \<open>
  Claim C1.  The scan asks the ledger for a cursor at \<^verbatim>\<open>OLDEST\<close>.  When the
  cursor hands out the blocks \<open>evs\<close>, each with status \<^verbatim>\<open>SUCCESS\<close>, and is
  then not ready, the scan returns the last configuration among all of them (last one
  wins), a configuration being a block of exactly one message whose bytes parse.  The
  result is the same as for the chain without its blocks of zero or several messages:
  such a block is skipped whole, whatever its messages are.
\<close>

theorem retrieveConfiguration_last_one_wins:
  assumes "available_chain ready nxt (fst (iter ledger SeekInfo_OLDEST 0)) evs"
      and "\<forall>e\<in>set evs. snd e = SUCCESS"
  shows "retrieveConfiguration iter ready nxt U ledger
           = Some (Inr (last_configuration U (map fst evs)))
       \<and> retrieveConfiguration iter ready nxt U ledger
           = Some (Inr (last_configuration U
                          (filter (\<lambda>b. length (Messages b) = 1) (map fst evs))))"
  unfolding last_configuration_single
  using retrieveConfiguration_chain[of ready nxt iter ledger evs U] assms by simp

lemma available_chain_list: "available_chain list_ReadyChan list_Next c c"
  by (induction c) (simp_all add: list_ReadyChan_def list_Next_def)

text \<open>
  The two ledgers of the specification: \<open>[tx, tx, configA, tx, configB, tx]\<close> yields
  \<open>configB\<close>, and the single block \<open>[configA, tx]\<close> yields no configuration.
\<close>

theorem retrieveConfiguration_last_one_wins_witness:
  "retrieveConfiguration list_Iterator list_ReadyChan list_Next example_Unmarshal example_ledger
     = Some (Inr (Some ''configB''))
   \<and> retrieveConfiguration list_Iterator list_ReadyChan list_Next example_Unmarshal
       multi_message_ledger = Some (Inr None)"
proof -
  have a: "available_chain list_ReadyChan list_Next
             (fst (list_Iterator example_ledger SeekInfo_OLDEST 0)) example_ledger"
    by (simp add: list_Iterator_def available_chain_list)
  have b: "\<forall>e\<in>set example_ledger. snd e = SUCCESS"
    by (simp add: example_ledger_def committed_def)
  have c: "available_chain list_ReadyChan list_Next
             (fst (list_Iterator multi_message_ledger SeekInfo_OLDEST 0)) multi_message_ledger"
    by (simp add: list_Iterator_def available_chain_list)
  have d: "\<forall>e\<in>set multi_message_ledger. snd e = SUCCESS"
    by (simp add: multi_message_ledger_def committed_def)
  have e: "last_configuration example_Unmarshal (map fst example_ledger) = Some ''configB''"
    by (simp add: last_configuration_def example_ledger_def committed_def
        configuration_of_block_def tx_def configA_def configB_def example_Unmarshal_def)
  have f: "last_configuration example_Unmarshal (map fst multi_message_ledger) = None"
    by (simp add: last_configuration_def multi_message_ledger_def committed_def
        configuration_of_block_def)
  show ?thesis
    using retrieveConfiguration_last_one_wins
            [of list_ReadyChan list_Next list_Iterator example_ledger example_ledger
                example_Unmarshal]
          retrieveConfiguration_last_one_wins
            [of list_ReadyChan list_Next list_Iterator multi_message_ledger
                multi_message_ledger example_Unmarshal]
          a b c d
    by (simp add: e f)
qed

text \<open>
  Claim C8.  The scan polls the ready channel without waiting (the \<^verbatim>\<open>select\<close> has a
  \<^verbatim>\<open>default\<close> branch).  When one of the first \<open>n + 1\<close> polls finds the channel
  not ready, the scan ends, with a result or a panic; and a scan that finds the channel
  not ready at its first poll returns at once, with no configuration and without a call
  of \<^verbatim>\<open>Next\<close>.
\<close>

theorem retrieveConfiguration_terminates:
  assumes "not_ready_within ready nxt n (fst (iter ledger SeekInfo_OLDEST 0))"
  shows "(\<exists>r. retrieveConfiguration iter ready nxt U ledger = Some r)
       \<and> (\<not> ready (fst (iter ledger SeekInfo_OLDEST 0))
            \<longrightarrow> retrieveConfiguration iter ready nxt U ledger = Some (Inr None))"
  using retrieveConfiguration_loop_terminates
          [of ready nxt n "fst (iter ledger SeekInfo_OLDEST 0)" U None] assms
  by (simp add: retrieveConfiguration_def retrieveConfiguration_loop_not_ready)

lemma not_ready_within_list:
  "length c \<le> n \<Longrightarrow> not_ready_within list_ReadyChan list_Next n c"
proof (induction n arbitrary: c)
  case 0
  then show ?case by (simp add: list_ReadyChan_def)
next
  case (Suc n)
  then show ?case by (cases c) (simp_all add: list_ReadyChan_def list_Next_def)
qed

theorem retrieveConfiguration_terminates_witness:
  "not_ready_within list_ReadyChan list_Next 6
     (fst (list_Iterator example_ledger SeekInfo_OLDEST 0))
   \<and> (\<exists>r. retrieveConfiguration list_Iterator list_ReadyChan list_Next example_Unmarshal
             example_ledger = Some r)
   \<and> not_ready_within list_ReadyChan list_Next 0 (fst (list_Iterator [] SeekInfo_OLDEST 0))
   \<and> retrieveConfiguration list_Iterator list_ReadyChan list_Next example_Unmarshal []
       = Some (Inr None)"
proof -
  have a: "not_ready_within list_ReadyChan list_Next 6
             (fst (list_Iterator example_ledger SeekInfo_OLDEST 0))"
    by (rule not_ready_within_list) (simp add: list_Iterator_def example_ledger_def)
  have b: "not_ready_within list_ReadyChan list_Next 0
             (fst (list_Iterator [] SeekInfo_OLDEST 0))"
    by (simp add: list_Iterator_def list_ReadyChan_def)
  have c: "\<not> list_ReadyChan (fst (list_Iterator [] SeekInfo_OLDEST 0))"
    by (simp add: list_Iterator_def list_ReadyChan_def)
  show ?thesis
    using retrieveConfiguration_terminates
            [of list_ReadyChan list_Next 6 list_Iterator example_ledger example_Unmarshal]
          retrieveConfiguration_terminates
            [of list_ReadyChan list_Next 0 list_Iterator "[]" example_Unmarshal]
          a b c
    by simp
qed

text \<open>
  Claim C9.  For a block of exactly one message read with \<^verbatim>\<open>SUCCESS\<close>, the scan
  goes on with the parsed envelope as its candidate when the message's data bytes parse,
  and with the candidate it had when they do not: nothing of the block but these bytes
  decides, and a failure to parse raises no error.
\<close>

theorem retrieveConfiguration_single_message:
  assumes "ready it" and "nxt it = ((block, SUCCESS), it')" and "Messages block = [m]"
  shows "retrieveConfiguration_loop ready nxt U it lastConfigTx =
         retrieveConfiguration_loop ready nxt U it'
           (case U (Data m) of Some maybeConfigTx \<Rightarrow> Some maybeConfigTx
                             | None \<Rightarrow> lastConfigTx)"
  using retrieveConfiguration_loop_step[of ready it nxt U lastConfigTx] assms
  by (simp add: configuration_of_block_def)

theorem retrieveConfiguration_single_message_witness:
  "list_ReadyChan [committed [configA]]
   \<and> list_Next [committed [configA]] = ((\<lparr>Messages = [configA]\<rparr>, SUCCESS), [])
   \<and> Messages \<lparr>Messages = [configA]\<rparr> = [configA]
   \<and> retrieveConfiguration_loop list_ReadyChan list_Next example_Unmarshal
       [committed [configA]] None = Some (Inr (Some ''configA''))
   \<and> list_ReadyChan [committed [tx]]
   \<and> list_Next [committed [tx]] = ((\<lparr>Messages = [tx]\<rparr>, SUCCESS), [])
   \<and> Messages \<lparr>Messages = [tx]\<rparr> = [tx]
   \<and> retrieveConfiguration_loop list_ReadyChan list_Next example_Unmarshal
       [committed [tx]] (Some ''configB'') = Some (Inr (Some ''configB''))"
proof -
  have a: "list_ReadyChan [committed [configA]]" "list_ReadyChan [committed [tx]]"
    by (simp_all add: list_ReadyChan_def)
  have b: "list_Next [committed [configA]] = ((\<lparr>Messages = [configA]\<rparr>, SUCCESS), [])"
          "list_Next [committed [tx]] = ((\<lparr>Messages = [tx]\<rparr>, SUCCESS), [])"
    by (simp_all add: list_Next_def committed_def)
  have c: "Messages \<lparr>Messages = [configA]\<rparr> = [configA]" "Messages \<lparr>Messages = [tx]\<rparr> = [tx]"
    by simp_all
  have d: "\<not> list_ReadyChan ([] :: (block \<times> Status) list)"
    by (simp add: list_ReadyChan_def)
  have e: "example_Unmarshal (Data configA) = Some ''configA''"
          "example_Unmarshal (Data tx) = None"
    by (simp_all add: example_Unmarshal_def configA_def tx_def)
  show ?thesis
    using retrieveConfiguration_single_message
            [of list_ReadyChan "[committed [configA]]" list_Next "\<lparr>Messages = [configA]\<rparr>" "[]"
                configA example_Unmarshal None, OF a(1) b(1) c(1)]
          retrieveConfiguration_single_message
            [of list_ReadyChan "[committed [tx]]" list_Next "\<lparr>Messages = [tx]\<rparr>" "[]"
                tx example_Unmarshal "Some ''configB''", OF a(2) b(2) c(2)]
          a b c
          retrieveConfiguration_loop_not_ready
            [of list_ReadyChan "[]" list_Next example_Unmarshal "Some ''configA''"]
          retrieveConfiguration_loop_not_ready
            [of list_ReadyChan "[]" list_Next example_Unmarshal "Some ''configB''"]
          d
    by (simp add: e)
qed

section \<open>Properties of the solo launch\<close>

lemma launchSolo_rawledger_no_serve:
  "Call_Serve \<notin> set (fst (launchSolo_rawledger w conf g))
   \<and> Call_solo_New \<notin> set (fst (launchSolo_rawledger w conf g))"
  by (simp add: launchSolo_rawledger_def Let_def split: sum.splits)

lemma launchSolo_bootstrap_panic:
  assumes "retrieveConfiguration (Iterator w) (ReadyChan w) (Next w) (proto_Unmarshal w) l
             = Some r"
      and "r = Inl p \<or> (r = Inr None \<and> p = NoChainConfigurationFound)"
  shows "launchSolo_bootstrap w conf lis l = Some ([Call_retrieveConfiguration], Panicked p)"
  using assms by (auto simp add: launchSolo_bootstrap_def)

lemma scan_fails_result:
  assumes "scan_fails w (fst (Iterator w l SeekInfo_OLDEST 0)) f"
  shows "\<exists>r. retrieveConfiguration (Iterator w) (ReadyChan w) (Next w) (proto_Unmarshal w) l
               = Some r
             \<and> (r = Inl (failure_panic f)
                 \<or> (r = Inr None \<and> failure_panic f = NoChainConfigurationFound))"
proof (cases f)
  case (GenesisBlock_error err)
  with assms show ?thesis by simp
next
  case (Next_status n st)
  with assms show ?thesis
    using retrieveConfiguration_loop_fails
            [of "ReadyChan w" "Next w" n "fst (Iterator w l SeekInfo_OLDEST 0)" st
                "proto_Unmarshal w" None]
    by (simp add: retrieveConfiguration_def)
next
  case (No_configuration evs)
  with assms show ?thesis
    using retrieveConfiguration_chain
            [of "ReadyChan w" "Next w" "Iterator w" l evs "proto_Unmarshal w"]
    by (simp add: list_all_iff)
qed

lemma launchSolo_bootstrap_fails:
  assumes "net_Listen w (ListenAddress (General conf)) (ListenPort (General conf)) = Inr lis"
      and "GenesisMethod (General conf) = ''static''"
      and "bootstrap_fails w conf f"
  shows "\<exists>tr. launchSolo w conf = Some (tr, Panicked (failure_panic f))
              \<and> Call_Serve \<notin> set tr \<and> Call_solo_New \<notin> set tr"
proof (cases "GenesisBlock w")
  case (Inl err)
  with assms show ?thesis by (simp add: launchSolo_def bootstrap_fails_def)
next
  case (Inr g)
  obtain tr1 res where rl: "launchSolo_rawledger w conf g = (tr1, res)"
    by (cases "launchSolo_rawledger w conf g")
  with assms(3) Inr obtain l where res: "res = Inr l"
    and sf: "scan_fails w (fst (Iterator w l SeekInfo_OLDEST 0)) f"
    by (cases res) (simp_all add: bootstrap_fails_def)
  from scan_fails_result[OF sf] obtain r where
    r: "retrieveConfiguration (Iterator w) (ReadyChan w) (Next w) (proto_Unmarshal w) l = Some r"
    and r': "r = Inl (failure_panic f) \<or> (r = Inr None \<and> failure_panic f = NoChainConfigurationFound)"
    by blast
  have b: "launchSolo_bootstrap w conf lis l
             = Some ([Call_retrieveConfiguration], Panicked (failure_panic f))"
    by (rule launchSolo_bootstrap_panic[OF r r'])
  from launchSolo_rawledger_no_serve[of w conf g] rl
  have "Call_Serve \<notin> set tr1" "Call_solo_New \<notin> set tr1" by simp_all
  with assms(1,2) Inr rl res b show ?thesis by (simp add: launchSolo_def)
qed

lemma launchSolo_serve_only_solo:
  assumes "launchSolo w conf = Some (tr, out)"
  shows "(Call_Serve \<in> set tr \<longleftrightarrow> (\<exists>args lis. out = SoloServing args lis))
       \<and> (\<forall>args lis. out \<noteq> KafkaServing args lis)"
proof -
  have b: "\<And>lis l tr2 out2. launchSolo_bootstrap w conf lis l = Some (tr2, out2) \<Longrightarrow>
        (Call_Serve \<in> set tr2 \<longleftrightarrow> (\<exists>args lis. out2 = SoloServing args lis))
        \<and> (\<forall>args lis. out2 \<noteq> KafkaServing args lis)"
    by (auto simp add: launchSolo_bootstrap_def split: option.splits sum.splits)
  show ?thesis
  proof (cases "net_Listen w (ListenAddress (General conf)) (ListenPort (General conf))")
    case (Inl err)
    with assms show ?thesis by (auto simp add: launchSolo_def)
  next
    case lis: (Inr lis)
    show ?thesis
    proof (cases "GenesisMethod (General conf) = ''static''")
      case False
      with assms lis show ?thesis by (auto simp add: launchSolo_def)
    next
      case True
      show ?thesis
      proof (cases "GenesisBlock w")
        case (Inl err)
        with assms lis True show ?thesis by (auto simp add: launchSolo_def)
      next
        case (Inr g)
        obtain tr1 res where rl: "launchSolo_rawledger w conf g = (tr1, res)"
          by (cases "launchSolo_rawledger w conf g")
        from launchSolo_rawledger_no_serve[of w conf g] rl
        have ns: "Call_Serve \<notin> set tr1" by simp
        show ?thesis
        proof (cases res)
          case (Inl p)
          with assms lis True Inr rl ns show ?thesis by (auto simp add: launchSolo_def)
        next
          case l: (Inr l)
          with assms lis True Inr rl obtain tr2 where
            "launchSolo_bootstrap w conf lis l = Some (tr2, out)"
            and tr: "tr = [Call_grpc_NewServer, Call_net_Listen, Call_static_New,
                           Call_GenesisBlock] @ tr1 @ tr2"
            by (auto simp add: launchSolo_def split: option.splits)
          from b[OF this(1)] tr ns show ?thesis by auto
        qed
      qed
    qed
  qed
qed

text \<open>
  Claim C2.  When the genesis-block provider returns an error, when a \<^verbatim>\<open>Next\<close> of the
  bootstrap scan returns a status other than \<^verbatim>\<open>SUCCESS\<close>, or when the scan finds no
  configuration in the chain, no run of \<^verbatim>\<open>launchSolo\<close> reaches \<^verbatim>\<open>Serve\<close>; and a
  run that has its listener and the static genesis method panics, with the panic of that
  failure, before \<^verbatim>\<open>solo.New\<close> and \<^verbatim>\<open>Serve\<close> are called.
\<close>

theorem launchSolo_bootstrap_failure_fatal:
  assumes "bootstrap_fails w conf f"
  shows "(\<forall>tr out. launchSolo w conf = Some (tr, out)
            \<longrightarrow> Call_Serve \<notin> set tr \<and> (\<forall>args lis. out \<noteq> SoloServing args lis))
       \<and> (\<forall>lis. net_Listen w (ListenAddress (General conf)) (ListenPort (General conf)) = Inr lis
                 \<and> GenesisMethod (General conf) = ''static''
            \<longrightarrow> (\<exists>tr. launchSolo w conf = Some (tr, Panicked (failure_panic f))
                      \<and> Call_Serve \<notin> set tr \<and> Call_solo_New \<notin> set tr))"
proof (intro conjI allI impI)
  fix lis
  assume "net_Listen w (ListenAddress (General conf)) (ListenPort (General conf)) = Inr lis
          \<and> GenesisMethod (General conf) = ''static''"
  with assms show "\<exists>tr. launchSolo w conf = Some (tr, Panicked (failure_panic f))
                      \<and> Call_Serve \<notin> set tr \<and> Call_solo_New \<notin> set tr"
    using launchSolo_bootstrap_fails[of w conf lis f] by simp
next
  fix tr out
  assume run: "launchSolo w conf = Some (tr, out)"
  have "Call_Serve \<notin> set tr"
  proof (cases "net_Listen w (ListenAddress (General conf)) (ListenPort (General conf))")
    case (Inl err)
    with run show ?thesis by (auto simp add: launchSolo_def)
  next
    case (Inr lis)
    show ?thesis
    proof (cases "GenesisMethod (General conf) = ''static''")
      case False
      with run Inr show ?thesis by (auto simp add: launchSolo_def)
    next
      case True
      with launchSolo_bootstrap_fails[OF Inr True assms] run show ?thesis by auto
    qed
  qed
  with launchSolo_serve_only_solo[OF run]
  show "Call_Serve \<notin> set tr" and "\<And>args lis. out \<noteq> SoloServing args lis" by auto
qed


text \<open>The concrete collaborators, evaluated.\<close>

lemma retrieveConfiguration_example_world:
  assumes "list_all (\<lambda>e. snd e = SUCCESS) chain"
  shows "retrieveConfiguration (Iterator (example_world c lt g chain mgr))
           (ReadyChan (example_world c lt g chain mgr)) (Next (example_world c lt g chain mgr))
           (proto_Unmarshal (example_world c lt g chain mgr)) l
         = Some (Inr (last_configuration example_Unmarshal (map fst chain)))"
proof -
  have "available_chain list_ReadyChan list_Next
          (fst (list_Iterator chain SeekInfo_OLDEST 0)) chain"
    by (simp add: list_Iterator_def available_chain_list)
  with assms show ?thesis
    using retrieveConfiguration_chain
            [of list_ReadyChan list_Next "\<lambda>l. list_Iterator chain" l chain example_Unmarshal]
    by (simp add: example_world_def list_all_iff)
qed

lemma example_configurations:
  "last_configuration example_Unmarshal (map fst example_ledger) = Some ''configB''"
  "last_configuration example_Unmarshal (map fst multi_message_ledger) = None"
  by (simp_all add: last_configuration_def example_ledger_def multi_message_ledger_def
        committed_def configuration_of_block_def tx_def configA_def configB_def
        example_Unmarshal_def)

lemma example_all_SUCCESS:
  "list_all (\<lambda>e. snd e = SUCCESS) example_ledger"
  "list_all (\<lambda>e. snd e = SUCCESS) multi_message_ledger"
  by (simp_all add: example_ledger_def multi_message_ledger_def committed_def)

lemma example_listen:
  "net_Listen (example_world c lt g chain mgr) a p = Inr (Listener a p)"
  by (simp add: example_world_def)

lemma example_static: "GenesisMethod (General (example_conf t loc)) = ''static''"
  by (simp add: example_conf_def)

text \<open>
  One run for each failure: no genesis block, a second \<^verbatim>\<open>Next\<close> that returns
  \<^verbatim>\<open>SERVICE_UNAVAILABLE\<close>, and a chain that is the single block \<open>[configA, tx]\<close>.
\<close>

theorem launchSolo_bootstrap_failure_fatal_witness:
  "bootstrap_fails
     (example_world (example_conf ''solo'' []) ''ram'' (Inl ''no genesis block'') []
        (Inr accept_all))
     (example_conf ''solo'' []) (GenesisBlock_error ''no genesis block'')
   \<and> (\<exists>tr. launchSolo
             (example_world (example_conf ''solo'' []) ''ram'' (Inl ''no genesis block'') []
                (Inr accept_all))
             (example_conf ''solo'' [])
           = Some (tr, Panicked (ErrorRetrievingGenesisBlock ''no genesis block''))
          \<and> Call_Serve \<notin> set tr \<and> Call_solo_New \<notin> set tr)
   \<and> bootstrap_fails
       (example_world (example_conf ''solo'' []) ''ram'' (Inr example_genesis) failing_ledger
          (Inr accept_all))
       (example_conf ''solo'' []) (Next_status 1 SERVICE_UNAVAILABLE)
   \<and> (\<exists>tr. launchSolo
             (example_world (example_conf ''solo'' []) ''ram'' (Inr example_genesis)
                failing_ledger (Inr accept_all))
             (example_conf ''solo'' [])
           = Some (tr, Panicked (ErrorParsingBlockchain SERVICE_UNAVAILABLE))
          \<and> Call_Serve \<notin> set tr \<and> Call_solo_New \<notin> set tr)
   \<and> bootstrap_fails
       (example_world (example_conf ''solo'' []) ''ram'' (Inr example_genesis)
          multi_message_ledger (Inr accept_all))
       (example_conf ''solo'' []) (No_configuration multi_message_ledger)
   \<and> (\<exists>tr. launchSolo
             (example_world (example_conf ''solo'' []) ''ram'' (Inr example_genesis)
                multi_message_ledger (Inr accept_all))
             (example_conf ''solo'' [])
           = Some (tr, Panicked NoChainConfigurationFound)
          \<and> Call_Serve \<notin> set tr \<and> Call_solo_New \<notin> set tr)"
proof -
  let ?conf = "example_conf ''solo'' []"
  let ?w1 = "example_world ?conf ''ram'' (Inl ''no genesis block'') [] (Inr accept_all)"
  let ?w2 = "example_world ?conf ''ram'' (Inr example_genesis) failing_ledger (Inr accept_all)"
  let ?w3 = "example_world ?conf ''ram'' (Inr example_genesis) multi_message_ledger
               (Inr accept_all)"
  have f1: "bootstrap_fails ?w1 ?conf (GenesisBlock_error ''no genesis block'')"
    by (simp add: bootstrap_fails_def example_world_def)
  have f2: "bootstrap_fails ?w2 ?conf (Next_status 1 SERVICE_UNAVAILABLE)"
    by (simp add: bootstrap_fails_def example_world_def launchSolo_rawledger_def
          list_Iterator_def list_ReadyChan_def list_Next_def failing_ledger_def committed_def)
  have f3: "bootstrap_fails ?w3 ?conf (No_configuration multi_message_ledger)"
    by (simp add: bootstrap_fails_def example_world_def launchSolo_rawledger_def
          list_Iterator_def available_chain_list example_configurations example_all_SUCCESS)
  show ?thesis
    using launchSolo_bootstrap_failure_fatal[OF f1] launchSolo_bootstrap_failure_fatal[OF f2]
          launchSolo_bootstrap_failure_fatal[OF f3] f1 f2 f3
    by (simp add: example_listen example_static)
qed

lemma launchSolo_example_world:
  assumes "list_all (\<lambda>e. snd e = SUCCESS) chain"
      and "last_configuration example_Unmarshal (map fst chain) = Some c"
      and "launchSolo_rawledger (example_world conf0 lt (Inr g) chain (Inr mgr))
             (example_conf t loc) g = (tr1, Inr l)"
  shows "launchSolo (example_world conf0 lt (Inr g) chain (Inr mgr)) (example_conf t loc)
         = Some ([Call_grpc_NewServer, Call_net_Listen, Call_static_New, Call_GenesisBlock]
                 @ tr1
                 @ [Call_retrieveConfiguration, Call_bootstrapConfigManager, Call_solo_New,
                    Call_Serve],
                 SoloServing
                   \<lparr>queueSize = 1000, batchSize = 10, maxWindowSize = 1000,
                    batchTimeout = 10000000000, rl = l\<rparr>
                   (Listener ''127.0.0.1'' 5151))"
proof -
  let ?w = "example_world conf0 lt (Inr g) chain (Inr mgr)"
  have r: "\<And>l. retrieveConfiguration (Iterator ?w) (ReadyChan ?w) (Next ?w) (proto_Unmarshal ?w) l
             = Some (Inr (Some c))"
    using retrieveConfiguration_example_world[OF assms(1)] assms(2) by simp
  have b: "bootstrapConfigManager ?w c = Inr mgr"
    by (simp add: bootstrapConfigManager_def example_world_def)
  have g: "GenesisBlock ?w = Inr g" by (simp add: example_world_def)
  have c: "General (example_conf t loc) =
             \<lparr>OrdererType = t, ListenAddress = ''127.0.0.1'',
              ListenPort = 5151, GenesisMethod = ''static'', QueueSize = 1000,
              BatchSize = 10, MaxWindowSize = 1000, BatchTimeout = 10000000000\<rparr>"
    by (simp add: example_conf_def)
  have s: "\<And>l. launchSolo_bootstrap ?w (example_conf t loc) (Listener ''127.0.0.1'' 5151) l
            = Some ([Call_retrieveConfiguration, Call_bootstrapConfigManager, Call_solo_New,
                     Call_Serve],
                    SoloServing
                      \<lparr>queueSize = 1000, batchSize = 10, maxWindowSize = 1000,
                       batchTimeout = 10000000000, rl = l\<rparr>
                      (Listener ''127.0.0.1'' 5151))"
    by (simp add: launchSolo_bootstrap_def r b c)
  show ?thesis
    by (simp add: launchSolo_def example_listen c g assms(3) s)
qed

lemma launchSolo_rawledger_example_ram:
  "launchSolo_rawledger (example_world conf0 ''ram'' g0 chain mgr) (example_conf t loc) g
   = ([Call_os_Getenv, Call_ramledger_New], Inr (RAM_ledger 10000 g))"
  by (simp add: launchSolo_rawledger_def example_world_def example_conf_def)

lemma launchSolo_rawledger_example_file:
  "launchSolo_rawledger (example_world conf0 ''file'' g0 chain mgr)
     (example_conf t ''/var/ledger'') g
   = ([Call_os_Getenv, Call_fileledger_New], Inr (File_ledger ''/var/ledger'' g))"
  by (simp add: launchSolo_rawledger_def example_world_def example_conf_def)

lemma launchSolo_serving:
  assumes "launchSolo w conf = Some (tr, SoloServing args lis)"
  shows "\<exists>g tr1 l c m.
           net_Listen w (ListenAddress (General conf)) (ListenPort (General conf)) = Inr lis
         \<and> GenesisMethod (General conf) = ''static''
         \<and> GenesisBlock w = Inr g
         \<and> launchSolo_rawledger w conf g = (tr1, Inr l)
         \<and> retrieveConfiguration (Iterator w) (ReadyChan w) (Next w) (proto_Unmarshal w) l
             = Some (Inr (Some c))
         \<and> bootstrapConfigManager w c = Inr m
         \<and> tr = [Call_grpc_NewServer, Call_net_Listen, Call_static_New, Call_GenesisBlock]
                  @ tr1 @ [Call_retrieveConfiguration, Call_bootstrapConfigManager,
                           Call_solo_New, Call_Serve]
         \<and> args = \<lparr>queueSize = sint (QueueSize (General conf)),
                    batchSize = sint (BatchSize (General conf)),
                    maxWindowSize = sint (MaxWindowSize (General conf)),
                    batchTimeout = BatchTimeout (General conf),
                    rl = l\<rparr>"
  using assms
  by (auto simp add: launchSolo_def launchSolo_bootstrap_def
      split: sum.splits if_splits prod.splits option.splits)


text \<open>
  Claim C3, as the code has it.  A run of \<^verbatim>\<open>launchSolo\<close> that ends serving has
  constructed the configuration manager: \<^verbatim>\<open>configtx.NewConfigurationManager\<close>, called
  with the configuration the scan found, the policy manager and the handler map, has
  returned a manager.  The manager is then assigned to the blank identifier: the service
  is made from the converted queue size, batch size and window size, the batch timeout
  and the ledger alone, and the run ends with the same calls and the same service
  whatever manager any other \<^verbatim>\<open>NewConfigurationManager\<close> returns.  When the
  construction returns an error, the run panics with it after the call of
  \<^verbatim>\<open>bootstrapConfigManager\<close>, before \<^verbatim>\<open>solo.New\<close> and \<^verbatim>\<open>Serve\<close>.
\<close>

theorem launchSolo_discards_configManager:
  "(\<forall>tr args lis.
      launchSolo w conf = Some (tr, SoloServing args lis) \<longrightarrow>
      (\<exists>g tr1 l c m.
          GenesisBlock w = Inr g
        \<and> launchSolo_rawledger w conf g = (tr1, Inr l)
        \<and> retrieveConfiguration (Iterator w) (ReadyChan w) (Next w) (proto_Unmarshal w) l
            = Some (Inr (Some c))
        \<and> NewConfigurationManager w c (NewManagerImpl w VerifySignature)
              (configHandlerMap w (NewManagerImpl w VerifySignature)) = Inr m
        \<and> tr = [Call_grpc_NewServer, Call_net_Listen, Call_static_New, Call_GenesisBlock]
                 @ tr1 @ [Call_retrieveConfiguration, Call_bootstrapConfigManager,
                          Call_solo_New, Call_Serve]
        \<and> args = \<lparr>queueSize = sint (QueueSize (General conf)),
                   batchSize = sint (BatchSize (General conf)),
                   maxWindowSize = sint (MaxWindowSize (General conf)),
                   batchTimeout = BatchTimeout (General conf),
                   rl = l\<rparr>
        \<and> (\<forall>f other.
               f c (NewManagerImpl w VerifySignature)
                 (configHandlerMap w (NewManagerImpl w VerifySignature)) = Inr other
               \<longrightarrow> launchSolo (w\<lparr>NewConfigurationManager := f\<rparr>) conf
                     = Some (tr, SoloServing args lis))))
   \<and> (\<forall>lis g tr1 l c err.
          net_Listen w (ListenAddress (General conf)) (ListenPort (General conf)) = Inr lis
        \<and> GenesisMethod (General conf) = ''static''
        \<and> GenesisBlock w = Inr g
        \<and> launchSolo_rawledger w conf g = (tr1, Inr l)
        \<and> retrieveConfiguration (Iterator w) (ReadyChan w) (Next w) (proto_Unmarshal w) l
            = Some (Inr (Some c))
        \<and> NewConfigurationManager w c (NewManagerImpl w VerifySignature)
              (configHandlerMap w (NewManagerImpl w VerifySignature)) = Inl err
        \<longrightarrow> launchSolo w conf
              = Some ([Call_grpc_NewServer, Call_net_Listen, Call_static_New,
                       Call_GenesisBlock] @ tr1
                      @ [Call_retrieveConfiguration, Call_bootstrapConfigManager],
                      Panicked (ConfigManagerError err)))"
proof (intro conjI allI impI)
  fix tr args lis
  assume run: "launchSolo w conf = Some (tr, SoloServing args lis)"
  from launchSolo_serving[OF run] obtain g tr1 l c m where
    h: "net_Listen w (ListenAddress (General conf)) (ListenPort (General conf)) = Inr lis"
      "GenesisMethod (General conf) = ''static''" "GenesisBlock w = Inr g"
      "launchSolo_rawledger w conf g = (tr1, Inr l)"
      "retrieveConfiguration (Iterator w) (ReadyChan w) (Next w) (proto_Unmarshal w) l
         = Some (Inr (Some c))"
    and b: "bootstrapConfigManager w c = Inr m"
    and tr: "tr = [Call_grpc_NewServer, Call_net_Listen, Call_static_New, Call_GenesisBlock]
            @ tr1 @ [Call_retrieveConfiguration, Call_bootstrapConfigManager,
                     Call_solo_New, Call_Serve]"
    and args: "args = \<lparr>queueSize = sint (QueueSize (General conf)),
               batchSize = sint (BatchSize (General conf)),
               maxWindowSize = sint (MaxWindowSize (General conf)),
               batchTimeout = BatchTimeout (General conf),
               rl = l\<rparr>"
    by blast
  from b have m: "NewConfigurationManager w c (NewManagerImpl w VerifySignature)
                    (configHandlerMap w (NewManagerImpl w VerifySignature)) = Inr m"
    by (simp add: bootstrapConfigManager_def Let_def split: sum.splits)
  have swap: "launchSolo (w\<lparr>NewConfigurationManager := f\<rparr>) conf
                = Some (tr, SoloServing args lis)"
    if f: "f c (NewManagerImpl w VerifySignature)
             (configHandlerMap w (NewManagerImpl w VerifySignature)) = Inr other"
    for f other
  proof -
    let ?w' = "w\<lparr>NewConfigurationManager := f\<rparr>"
    have rl: "launchSolo_rawledger ?w' conf g = launchSolo_rawledger w conf g"
      by (simp add: launchSolo_rawledger_def Let_def split: sum.splits)
    have hm: "\<And>pm. configHandlerMap ?w' pm = configHandlerMap w pm"
      by (simp add: configHandlerMap_def)
    have bm: "bootstrapConfigManager ?w' c = Inr other"
      using f by (simp add: bootstrapConfigManager_def Let_def hm)
    from h tr args show ?thesis
      by (simp add: launchSolo_def launchSolo_bootstrap_def rl bm)
  qed
  from h(3,4,5) m tr args swap
  show "\<exists>g tr1 l c m.
          GenesisBlock w = Inr g
        \<and> launchSolo_rawledger w conf g = (tr1, Inr l)
        \<and> retrieveConfiguration (Iterator w) (ReadyChan w) (Next w) (proto_Unmarshal w) l
            = Some (Inr (Some c))
        \<and> NewConfigurationManager w c (NewManagerImpl w VerifySignature)
              (configHandlerMap w (NewManagerImpl w VerifySignature)) = Inr m
        \<and> tr = [Call_grpc_NewServer, Call_net_Listen, Call_static_New, Call_GenesisBlock]
                 @ tr1 @ [Call_retrieveConfiguration, Call_bootstrapConfigManager,
                          Call_solo_New, Call_Serve]
        \<and> args = \<lparr>queueSize = sint (QueueSize (General conf)),
                   batchSize = sint (BatchSize (General conf)),
                   maxWindowSize = sint (MaxWindowSize (General conf)),
                   batchTimeout = BatchTimeout (General conf),
                   rl = l\<rparr>
        \<and> (\<forall>f other.
               f c (NewManagerImpl w VerifySignature)
                 (configHandlerMap w (NewManagerImpl w VerifySignature)) = Inr other
               \<longrightarrow> launchSolo (w\<lparr>NewConfigurationManager := f\<rparr>) conf
                     = Some (tr, SoloServing args lis))"
    by blast
next
  fix lis g tr1 l c err
  assume "net_Listen w (ListenAddress (General conf)) (ListenPort (General conf)) = Inr lis
        \<and> GenesisMethod (General conf) = ''static''
        \<and> GenesisBlock w = Inr g
        \<and> launchSolo_rawledger w conf g = (tr1, Inr l)
        \<and> retrieveConfiguration (Iterator w) (ReadyChan w) (Next w) (proto_Unmarshal w) l
            = Some (Inr (Some c))
        \<and> NewConfigurationManager w c (NewManagerImpl w VerifySignature)
              (configHandlerMap w (NewManagerImpl w VerifySignature)) = Inl err"
  then show "launchSolo w conf
              = Some ([Call_grpc_NewServer, Call_net_Listen, Call_static_New,
                       Call_GenesisBlock] @ tr1
                      @ [Call_retrieveConfiguration, Call_bootstrapConfigManager],
                      Panicked (ConfigManagerError err))"
    by (simp add: launchSolo_def launchSolo_bootstrap_def bootstrapConfigManager_def Let_def)
qed

text \<open>
  A serving start whose manager accepts every envelope, the same start with a manager
  that rejects every envelope, and a start whose manager cannot be constructed.
\<close>

theorem launchSolo_discards_configManager_witness:
  "launchSolo
     (example_world (example_conf ''solo'' []) ''ram'' (Inr example_genesis) example_ledger
        (Inr accept_all))
     (example_conf ''solo'' [])
   = Some ([Call_grpc_NewServer, Call_net_Listen, Call_static_New, Call_GenesisBlock,
            Call_os_Getenv, Call_ramledger_New, Call_retrieveConfiguration,
            Call_bootstrapConfigManager, Call_solo_New, Call_Serve],
           SoloServing
             \<lparr>queueSize = 1000, batchSize = 10, maxWindowSize = 1000,
              batchTimeout = 10000000000, rl = RAM_ledger 10000 example_genesis\<rparr>
             (Listener ''127.0.0.1'' 5151))
   \<and> launchSolo
       ((example_world (example_conf ''solo'' []) ''ram'' (Inr example_genesis) example_ledger
          (Inr accept_all))
        \<lparr>NewConfigurationManager := (\<lambda>lastConfigTx policyManager handlers. Inr reject_all)\<rparr>)
       (example_conf ''solo'' [])
     = Some ([Call_grpc_NewServer, Call_net_Listen, Call_static_New, Call_GenesisBlock,
              Call_os_Getenv, Call_ramledger_New, Call_retrieveConfiguration,
              Call_bootstrapConfigManager, Call_solo_New, Call_Serve],
             SoloServing
               \<lparr>queueSize = 1000, batchSize = 10, maxWindowSize = 1000,
                batchTimeout = 10000000000, rl = RAM_ledger 10000 example_genesis\<rparr>
               (Listener ''127.0.0.1'' 5151))
   \<and> launchSolo
       (example_world (example_conf ''solo'' []) ''ram'' (Inr example_genesis) example_ledger
          (Inl ''bad configuration''))
       (example_conf ''solo'' [])
     = Some ([Call_grpc_NewServer, Call_net_Listen, Call_static_New, Call_GenesisBlock,
              Call_os_Getenv, Call_ramledger_New, Call_retrieveConfiguration,
              Call_bootstrapConfigManager],
             Panicked (ConfigManagerError ''bad configuration''))"
proof -
  let ?conf = "example_conf ''solo'' []"
  let ?w = "example_world ?conf ''ram'' (Inr example_genesis) example_ledger (Inr accept_all)"
  let ?e = "example_world ?conf ''ram'' (Inr example_genesis) example_ledger
              (Inl ''bad configuration'')"
  let ?tr = "[Call_grpc_NewServer, Call_net_Listen, Call_static_New, Call_GenesisBlock,
              Call_os_Getenv, Call_ramledger_New, Call_retrieveConfiguration,
              Call_bootstrapConfigManager, Call_solo_New, Call_Serve]"
  let ?args = "\<lparr>queueSize = 1000, batchSize = 10, maxWindowSize = 1000,
                batchTimeout = 10000000000, rl = RAM_ledger 10000 example_genesis\<rparr>"
  let ?lis = "Listener ''127.0.0.1'' 5151"
  have a: "launchSolo ?w ?conf = Some (?tr, SoloServing ?args ?lis)"
    by (simp add: launchSolo_example_world
                    [OF example_all_SUCCESS(1) example_configurations(1)
                        launchSolo_rawledger_example_ram])
  from launchSolo_discards_configManager[of ?w ?conf] a
  obtain c where
    "\<forall>f other.
       f c (NewManagerImpl ?w VerifySignature)
         (configHandlerMap ?w (NewManagerImpl ?w VerifySignature)) = Inr other
       \<longrightarrow> launchSolo (?w\<lparr>NewConfigurationManager := f\<rparr>) ?conf
             = Some (?tr, SoloServing ?args ?lis)"
    by blast
  from this[rule_format, of "\<lambda>lastConfigTx policyManager handlers. Inr reject_all" reject_all]
  have b: "launchSolo
             (?w\<lparr>NewConfigurationManager :=
                   (\<lambda>lastConfigTx policyManager handlers. Inr reject_all)\<rparr>) ?conf
           = Some (?tr, SoloServing ?args ?lis)"
    by simp
  have e1: "net_Listen ?e (ListenAddress (General ?conf)) (ListenPort (General ?conf))
              = Inr (Listener (ListenAddress (General ?conf)) (ListenPort (General ?conf)))"
    by (rule example_listen)
  have e2: "GenesisBlock ?e = Inr example_genesis"
    by (simp add: example_world_def)
  have e3: "launchSolo_rawledger ?e ?conf example_genesis
              = ([Call_os_Getenv, Call_ramledger_New], Inr (RAM_ledger 10000 example_genesis))"
    by (rule launchSolo_rawledger_example_ram)
  have e4: "retrieveConfiguration (Iterator ?e) (ReadyChan ?e) (Next ?e) (proto_Unmarshal ?e)
              (RAM_ledger 10000 example_genesis) = Some (Inr (Some ''configB''))"
    using retrieveConfiguration_example_world[OF example_all_SUCCESS(1)]
    by (simp add: example_configurations)
  have e5: "NewConfigurationManager ?e ''configB'' (NewManagerImpl ?e VerifySignature)
              (configHandlerMap ?e (NewManagerImpl ?e VerifySignature))
            = Inl ''bad configuration''"
    by (simp add: example_world_def)
  from launchSolo_discards_configManager[of ?e ?conf] e1 example_static e2 e3 e4 e5
  have c: "launchSolo ?e ?conf
           = Some ([Call_grpc_NewServer, Call_net_Listen, Call_static_New, Call_GenesisBlock]
                   @ [Call_os_Getenv, Call_ramledger_New]
                   @ [Call_retrieveConfiguration, Call_bootstrapConfigManager],
                   Panicked (ConfigManagerError ''bad configuration''))"
    by blast
  from a b c show ?thesis by simp
qed

text \<open>
  The claim as the specification states it fails: two startups that differ only in the
  configuration manager, one accepting and one rejecting the envelope \<open>[1]\<close>, give
  the same solo service.
\<close>

theorem broadcast_policy_check_counterexample:
  "bootstrapConfigManager
     (example_world (example_conf ''solo'' []) ''ram'' (Inr example_genesis) example_ledger
        (Inr accept_all)) ''configB'' = Inr accept_all
   \<and> bootstrapConfigManager
       (example_world (example_conf ''solo'' []) ''ram'' (Inr example_genesis) example_ledger
          (Inr reject_all)) ''configB'' = Inr reject_all
   \<and> accept_all [1] \<noteq> reject_all [1]
   \<and> launchSolo
       (example_world (example_conf ''solo'' []) ''ram'' (Inr example_genesis) example_ledger
          (Inr accept_all)) (example_conf ''solo'' [])
     = launchSolo
         (example_world (example_conf ''solo'' []) ''ram'' (Inr example_genesis) example_ledger
            (Inr reject_all)) (example_conf ''solo'' [])
   \<and> launchSolo
       (example_world (example_conf ''solo'' []) ''ram'' (Inr example_genesis) example_ledger
          (Inr reject_all)) (example_conf ''solo'' [])
     = Some ([Call_grpc_NewServer, Call_net_Listen, Call_static_New, Call_GenesisBlock,
              Call_os_Getenv, Call_ramledger_New, Call_retrieveConfiguration,
              Call_bootstrapConfigManager, Call_solo_New, Call_Serve],
             SoloServing
               \<lparr>queueSize = 1000, batchSize = 10, maxWindowSize = 1000,
                batchTimeout = 10000000000, rl = RAM_ledger 10000 example_genesis\<rparr>
               (Listener ''127.0.0.1'' 5151))"
proof -
  have "bootstrapConfigManager
          (example_world (example_conf ''solo'' []) ''ram'' (Inr example_genesis) example_ledger
             (Inr accept_all)) ''configB'' = Inr accept_all"
       "bootstrapConfigManager
          (example_world (example_conf ''solo'' []) ''ram'' (Inr example_genesis) example_ledger
             (Inr reject_all)) ''configB'' = Inr reject_all"
    by (simp_all add: bootstrapConfigManager_def example_world_def)
  then show ?thesis
    by (simp add: launchSolo_example_world
                    [OF example_all_SUCCESS(1) example_configurations(1)
                        launchSolo_rawledger_example_ram]
          accept_all_def reject_all_def)
qed

text \<open>
  Claim C6, as the code has it.  The ledger of a serving solo orderer is chosen by the
  environment variable \<^verbatim>\<open>ORDERER_LEDGER_TYPE\<close>: the value \<^verbatim>\<open>file\<close> gives the file
  ledger, at the configured location or, when that is empty, in a fresh temporary
  directory; any other value gives the RAM ledger with the configured history size
  converted by \<^verbatim>\<open>int(...)\<close>, which is negative for a size from \<open>2 ^ 63\<close> on.
  The loaded configuration supplies these parameters and not the choice.
\<close>

theorem launchSolo_ledger_from_environment:
  assumes "launchSolo w conf = Some (tr, SoloServing args lis)"
  shows "\<exists>g. GenesisBlock w = Inr g
           \<and> (if os_Getenv w ''ORDERER_LEDGER_TYPE'' = ''file''
              then Call_fileledger_New \<in> set tr \<and> Call_ramledger_New \<notin> set tr
                   \<and> (\<exists>location. rl args = fileledger_New w location g
                         \<and> (if Location (FileLedger conf) = []
                            then ioutil_TempDir w [] (Prefix (FileLedger conf)) = Inr location
                            else location = Location (FileLedger conf)))
              else Call_ramledger_New \<in> set tr \<and> Call_fileledger_New \<notin> set tr
                   \<and> rl args = ramledger_New w (sint (HistorySize (RAMLedger conf))) g)"
proof -
  from launchSolo_serving[OF assms] obtain g tr1 l where
    g: "GenesisBlock w = Inr g" and
    l: "launchSolo_rawledger w conf g = (tr1, Inr l)" and
    tr: "tr = [Call_grpc_NewServer, Call_net_Listen, Call_static_New, Call_GenesisBlock]
              @ tr1 @ [Call_retrieveConfiguration, Call_bootstrapConfigManager,
                       Call_solo_New, Call_Serve]" and
    args: "rl args = l"
    by auto
  from l have
    "if os_Getenv w ''ORDERER_LEDGER_TYPE'' = ''file''
     then Call_fileledger_New \<in> set tr1 \<and> Call_ramledger_New \<notin> set tr1
          \<and> (\<exists>location. l = fileledger_New w location g
                \<and> (if Location (FileLedger conf) = []
                   then ioutil_TempDir w [] (Prefix (FileLedger conf)) = Inr location
                   else location = Location (FileLedger conf)))
     else Call_ramledger_New \<in> set tr1 \<and> Call_fileledger_New \<notin> set tr1
          \<and> l = ramledger_New w (sint (HistorySize (RAMLedger conf))) g"
    by (auto simp add: launchSolo_rawledger_def Let_def split: if_splits sum.splits)
  with g tr args show ?thesis by (auto split: if_splits)
qed

lemma launchSolo_example_file:
  "launchSolo
     (example_world (example_conf ''solo'' ''/var/ledger'') ''file'' (Inr example_genesis)
        example_ledger (Inr accept_all))
     (example_conf ''solo'' ''/var/ledger'')
   = Some ([Call_grpc_NewServer, Call_net_Listen, Call_static_New, Call_GenesisBlock,
            Call_os_Getenv, Call_fileledger_New, Call_retrieveConfiguration,
            Call_bootstrapConfigManager, Call_solo_New, Call_Serve],
           SoloServing
             \<lparr>queueSize = 1000, batchSize = 10, maxWindowSize = 1000,
              batchTimeout = 10000000000,
              rl = File_ledger ''/var/ledger'' example_genesis\<rparr>
             (Listener ''127.0.0.1'' 5151))"
  by (simp add: launchSolo_example_world
                  [OF example_all_SUCCESS(1) example_configurations(1)
                      launchSolo_rawledger_example_file])

lemma launchSolo_example_ram:
  "launchSolo
     (example_world (example_conf ''solo'' ''/var/ledger'') ''ram'' (Inr example_genesis)
        example_ledger (Inr accept_all))
     (example_conf ''solo'' ''/var/ledger'')
   = Some ([Call_grpc_NewServer, Call_net_Listen, Call_static_New, Call_GenesisBlock,
            Call_os_Getenv, Call_ramledger_New, Call_retrieveConfiguration,
            Call_bootstrapConfigManager, Call_solo_New, Call_Serve],
           SoloServing
             \<lparr>queueSize = 1000, batchSize = 10, maxWindowSize = 1000,
              batchTimeout = 10000000000, rl = RAM_ledger 10000 example_genesis\<rparr>
             (Listener ''127.0.0.1'' 5151))"
  by (simp add: launchSolo_example_world
                  [OF example_all_SUCCESS(1) example_configurations(1)
                      launchSolo_rawledger_example_ram])

lemma launchSolo_wrapping_conf:
  "launchSolo
     (example_world wrapping_conf ''ram'' (Inr example_genesis) example_ledger
        (Inr accept_all))
     wrapping_conf
   = Some ([Call_grpc_NewServer, Call_net_Listen, Call_static_New, Call_GenesisBlock,
            Call_os_Getenv, Call_ramledger_New, Call_retrieveConfiguration,
            Call_bootstrapConfigManager, Call_solo_New, Call_Serve],
           SoloServing
             \<lparr>queueSize = - 1, batchSize = 10, maxWindowSize = 1000,
              batchTimeout = 10000000000,
              rl = RAM_ledger (- 9223372036854775808) example_genesis\<rparr>
             (Listener ''127.0.0.1'' 5151))"
  by code_simp

text \<open>
  A start with the environment value \<^verbatim>\<open>file\<close>, and a start with the value
  \<^verbatim>\<open>ram\<close> and the history size \<open>2 ^ 63\<close>.
\<close>

theorem launchSolo_ledger_from_environment_witness:
  "launchSolo
     (example_world (example_conf ''solo'' ''/var/ledger'') ''file'' (Inr example_genesis)
        example_ledger (Inr accept_all))
     (example_conf ''solo'' ''/var/ledger'')
   = Some ([Call_grpc_NewServer, Call_net_Listen, Call_static_New, Call_GenesisBlock,
            Call_os_Getenv, Call_fileledger_New, Call_retrieveConfiguration,
            Call_bootstrapConfigManager, Call_solo_New, Call_Serve],
           SoloServing
             \<lparr>queueSize = 1000, batchSize = 10, maxWindowSize = 1000,
              batchTimeout = 10000000000,
              rl = File_ledger ''/var/ledger'' example_genesis\<rparr>
             (Listener ''127.0.0.1'' 5151))
   \<and> (\<exists>location. File_ledger ''/var/ledger'' example_genesis
                    = File_ledger location example_genesis
                  \<and> location = ''/var/ledger'')
   \<and> launchSolo
       (example_world wrapping_conf ''ram'' (Inr example_genesis) example_ledger
          (Inr accept_all))
       wrapping_conf
     = Some ([Call_grpc_NewServer, Call_net_Listen, Call_static_New, Call_GenesisBlock,
              Call_os_Getenv, Call_ramledger_New, Call_retrieveConfiguration,
              Call_bootstrapConfigManager, Call_solo_New, Call_Serve],
             SoloServing
               \<lparr>queueSize = - 1, batchSize = 10, maxWindowSize = 1000,
                batchTimeout = 10000000000,
                rl = RAM_ledger (- 9223372036854775808) example_genesis\<rparr>
               (Listener ''127.0.0.1'' 5151))
   \<and> RAM_ledger (- 9223372036854775808) example_genesis
       = RAM_ledger (sint (HistorySize (RAMLedger wrapping_conf))) example_genesis"
proof -
  let ?w = "example_world (example_conf ''solo'' ''/var/ledger'') ''file''
              (Inr example_genesis) example_ledger (Inr accept_all)"
  have e: "os_Getenv ?w ''ORDERER_LEDGER_TYPE'' = ''file''" "GenesisBlock ?w = Inr example_genesis"
          "fileledger_New ?w = File_ledger"
          "Location (FileLedger (example_conf ''solo'' ''/var/ledger'')) = ''/var/ledger''"
    by (simp_all add: example_world_def example_conf_def)
  let ?r = "example_world wrapping_conf ''ram'' (Inr example_genesis) example_ledger
              (Inr accept_all)"
  have r: "os_Getenv ?r ''ORDERER_LEDGER_TYPE'' = ''ram''" "GenesisBlock ?r = Inr example_genesis"
          "ramledger_New ?r = RAM_ledger"
    by (simp_all add: example_world_def)
  have f: "\<exists>location. File_ledger ''/var/ledger'' example_genesis
                    = File_ledger location example_genesis
                  \<and> location = ''/var/ledger''"
    using launchSolo_ledger_from_environment[OF launchSolo_example_file]
    by (simp add: e)
  have m: "RAM_ledger (- 9223372036854775808) example_genesis
           = RAM_ledger (sint (HistorySize (RAMLedger wrapping_conf))) example_genesis"
    using launchSolo_ledger_from_environment[OF launchSolo_wrapping_conf]
    by (simp add: r)
  from f m launchSolo_example_file launchSolo_wrapping_conf show ?thesis by simp
qed

text \<open>
  The claim as the specification states it fails: with one and the same loaded
  configuration, the environment values \<^verbatim>\<open>file\<close> and \<^verbatim>\<open>ram\<close> give a file ledger
  and a RAM ledger.
\<close>

theorem ledger_backend_from_configuration_counterexample:
  "config_Load
     (example_world (example_conf ''solo'' ''/var/ledger'') ''file'' (Inr example_genesis)
        example_ledger (Inr accept_all))
   = config_Load
       (example_world (example_conf ''solo'' ''/var/ledger'') ''ram'' (Inr example_genesis)
          example_ledger (Inr accept_all))
   \<and> launchSolo
       (example_world (example_conf ''solo'' ''/var/ledger'') ''file'' (Inr example_genesis)
          example_ledger (Inr accept_all))
       (example_conf ''solo'' ''/var/ledger'')
     = Some ([Call_grpc_NewServer, Call_net_Listen, Call_static_New, Call_GenesisBlock,
              Call_os_Getenv, Call_fileledger_New, Call_retrieveConfiguration,
              Call_bootstrapConfigManager, Call_solo_New, Call_Serve],
             SoloServing
               \<lparr>queueSize = 1000, batchSize = 10, maxWindowSize = 1000,
                batchTimeout = 10000000000,
                rl = File_ledger ''/var/ledger'' example_genesis\<rparr>
               (Listener ''127.0.0.1'' 5151))
   \<and> launchSolo
       (example_world (example_conf ''solo'' ''/var/ledger'') ''ram'' (Inr example_genesis)
          example_ledger (Inr accept_all))
       (example_conf ''solo'' ''/var/ledger'')
     = Some ([Call_grpc_NewServer, Call_net_Listen, Call_static_New, Call_GenesisBlock,
              Call_os_Getenv, Call_ramledger_New, Call_retrieveConfiguration,
              Call_bootstrapConfigManager, Call_solo_New, Call_Serve],
             SoloServing
               \<lparr>queueSize = 1000, batchSize = 10, maxWindowSize = 1000,
                batchTimeout = 10000000000, rl = RAM_ledger 10000 example_genesis\<rparr>
               (Listener ''127.0.0.1'' 5151))
   \<and> File_ledger ''/var/ledger'' example_genesis \<noteq> RAM_ledger 10000 example_genesis"
  by (simp add: launchSolo_example_file launchSolo_example_ram) (simp add: example_world_def)

section \<open>The crypto helper and the handler map\<close>

text \<open>
  Claim C4.  \<^verbatim>\<open>VerifySignature\<close> returns true on every message, identities and
  signatures, so its result is the same on any two inputs; and it is this helper that
  \<^verbatim>\<open>bootstrapConfigManager\<close> hands to \<^verbatim>\<open>policies.NewManagerImpl\<close>, whose result is
  the policy manager of the configuration manager.
\<close>

theorem VerifySignature_always_true:
  "VerifySignature msg ids sigs
   \<and> VerifySignature msg ids sigs = VerifySignature msg' ids' sigs'
   \<and> bootstrapConfigManager w lastConfigTx
       = (case NewConfigurationManager w lastConfigTx
                 (NewManagerImpl w (\<lambda>msg ids sigs. True))
                 (configHandlerMap w (NewManagerImpl w (\<lambda>msg ids sigs. True))) of
            Inl err \<Rightarrow> Inl (ConfigManagerError err)
          | Inr configManager \<Rightarrow> Inr configManager)"
proof -
  have "VerifySignature = (\<lambda>msg ids sigs. True)"
    by (simp add: fun_eq_iff VerifySignature_def)
  then show ?thesis by (simp add: bootstrapConfigManager_def Let_def VerifySignature_def)
qed

lemma fold_handlers:
  "fold (\<lambda>ctype m. if ctype = p then m(ctype \<mapsto> PolicyManager pm)
                    else m(ctype \<mapsto> BytesHandler)) ks m0 t
   = (if t \<in> set ks then Some (if t = p then PolicyManager pm else BytesHandler) else m0 t)"
  by (induction ks arbitrary: m0) simp_all

lemma configHandlerMap_apply:
  "configHandlerMap w policyManager t
   = (if t \<in> fst ` set (Configuration_ConfigurationType_name w)
      then Some (if t = Configuration_Policy w then PolicyManager policyManager
                 else BytesHandler)
      else None)"
  by (simp add: configHandlerMap_def Let_def fold_handlers)

text \<open>
  Claim C5.  The handler map has exactly the declared configuration types as its keys;
  it maps the policy type to the policy manager and every other declared type to a bytes
  handler.
\<close>

theorem configHandlerMap_by_type:
  "dom (configHandlerMap w policyManager) = fst ` set (Configuration_ConfigurationType_name w)
   \<and> (\<forall>t \<in> fst ` set (Configuration_ConfigurationType_name w).
         configHandlerMap w policyManager t
         = Some (if t = Configuration_Policy w then PolicyManager policyManager
                 else BytesHandler))"
  by (auto simp add: configHandlerMap_apply dom_def split: if_splits)

theorem configHandlerMap_by_type_witness:
  "dom (configHandlerMap
          (example_world (example_conf ''solo'' []) ''ram'' (Inr example_genesis)
             example_ledger (Inr accept_all)) VerifySignature) = {0, 1}
   \<and> configHandlerMap
       (example_world (example_conf ''solo'' []) ''ram'' (Inr example_genesis)
          example_ledger (Inr accept_all)) VerifySignature 0
     = Some (PolicyManager VerifySignature)
   \<and> configHandlerMap
       (example_world (example_conf ''solo'' []) ''ram'' (Inr example_genesis)
          example_ledger (Inr accept_all)) VerifySignature 1
     = Some BytesHandler"
proof -
  let ?w = "example_world (example_conf ''solo'' []) ''ram'' (Inr example_genesis)
              example_ledger (Inr accept_all)"
  have e: "Configuration_ConfigurationType_name ?w = [(0, ''Policy''), (1, ''ChannelParameters'')]"
          "Configuration_Policy ?w = 0"
    by (simp_all add: example_world_def)
  show ?thesis
    using configHandlerMap_by_type[of ?w VerifySignature] by (simp add: e insert_commute)
qed

section \<open>The message types\<close>

text \<open>
  Claim C7, as the file has it.  \<^verbatim>\<open>Message2.Type\<close> declares exactly eight values,
  each with its tag: \<^verbatim>\<open>UNDEFINED\<close> 0, \<^verbatim>\<open>DISCOVERY\<close> 1, \<^verbatim>\<open>SYNC\<close> 2,
  \<^verbatim>\<open>PROPOSAL\<close> 3, \<^verbatim>\<open>PROPOSAL_SET\<close> 4, \<^verbatim>\<open>PROPOSAL_RESULT\<close> 5,
  \<^verbatim>\<open>PROPOSAL_SET_RESULT\<close> 6 and \<^verbatim>\<open>TRANSACTION\<close> 7.  So \<^verbatim>\<open>TRANSACTION\<close>,
  \<^verbatim>\<open>DISCOVERY\<close>, \<^verbatim>\<open>SYNC\<close>, \<^verbatim>\<open>PROPOSAL\<close> and \<^verbatim>\<open>PROPOSAL_RESULT\<close> are among
  them, and no value is named \<^verbatim>\<open>CONFIGURATION\<close>.
\<close>

theorem Message2_Type_declared:
  "map (\<lambda>t. (Message2_Type_value t, Message2_Type_name t)) Message2_Type_values
     = [(0, ''UNDEFINED''), (1, ''DISCOVERY''), (2, ''SYNC''), (3, ''PROPOSAL''),
        (4, ''PROPOSAL_SET''), (5, ''PROPOSAL_RESULT''), (6, ''PROPOSAL_SET_RESULT''),
        (7, ''TRANSACTION'')]
   \<and> (\<forall>t. t \<in> set Message2_Type_values)
   \<and> (\<forall>t. Message2_Type_name t \<noteq> ''CONFIGURATION'')
   \<and> set [''TRANSACTION'', ''DISCOVERY'', ''SYNC'', ''PROPOSAL'', ''PROPOSAL_RESULT'']
       \<subseteq> set (map Message2_Type_name Message2_Type_values)"
proof -
  have a: "\<And>t. t \<in> set Message2_Type_values"
    by (case_tac t) (simp_all add: Message2_Type_values_def)
  have b: "\<And>t. Message2_Type_name t \<noteq> ''CONFIGURATION''"
    by (case_tac t) simp_all
  show ?thesis using a b by (simp add: Message2_Type_values_def)
qed

text \<open>
  The claim as the specification states it fails: \<^verbatim>\<open>CONFIGURATION\<close> is not the name
  of a declared value.
\<close>

theorem Message2_Type_CONFIGURATION_counterexample:
  "\<not> set [''TRANSACTION'', ''CONFIGURATION'', ''DISCOVERY'', ''SYNC'', ''PROPOSAL'',
          ''PROPOSAL_RESULT'']
       \<subseteq> set (map Message2_Type_name Message2_Type_values)"
  by (simp add: Message2_Type_values_def)

section \<open>The two launch paths\<close>

lemma launchKafka_run:
  "\<exists>tr out. launchKafka w conf = Some (tr, out)
     \<and> Call_GenesisBlock \<notin> set tr \<and> Call_retrieveConfiguration \<notin> set tr
     \<and> Call_bootstrapConfigManager \<notin> set tr
     \<and> (\<forall>lis. net_Listen w (ListenAddress (General conf)) (ListenPort (General conf)) = Inr lis
            \<longrightarrow> (\<exists>pre post. tr = pre @ [Call_RegisterAtomicBroadcastServer, Call_Serve] @ post))"
proof (cases "net_Listen w (ListenAddress (General conf)) (ListenPort (General conf))")
  case (Inl err)
  then show ?thesis by (simp add: launchKafka_def Let_def)
next
  case (Inr lis)
  let ?pre = "[Call_flag_Parse, Call_kafka_SetLogLevel]
              @ (if (case flag_verbose w of None \<Rightarrow> False | Some v \<Rightarrow> v)
                 then [Call_log_New] else [])
              @ [Call_kafka_New, Call_net_Listen, Call_grpc_NewServer]"
  define post where "post = (if interrupt w
                              then [Call_signal_Notify, Call_fmt_Println, Call_Teardown]
                              else [Call_signal_Notify])"
  define tr where "tr = ?pre @ [Call_RegisterAtomicBroadcastServer, Call_Serve] @ post"
  have run: "\<exists>out. launchKafka w conf = Some (tr, out)"
    using Inr by (simp add: tr_def post_def launchKafka_def Let_def)
  have mem: "Call_GenesisBlock \<notin> set tr" "Call_retrieveConfiguration \<notin> set tr"
    "Call_bootstrapConfigManager \<notin> set tr"
    by (simp_all add: tr_def post_def)
  have seq: "\<exists>pre post. tr = pre @ [Call_RegisterAtomicBroadcastServer, Call_Serve] @ post"
    unfolding tr_def by blast
  from run mem seq show ?thesis by blast
qed

text \<open>
  Claim C10.  With the orderer type \<^verbatim>\<open>kafka\<close>, \<^verbatim>\<open>main\<close> runs to an outcome
  without a call of the genesis-block provider, of \<^verbatim>\<open>retrieveConfiguration\<close> or of
  \<^verbatim>\<open>bootstrapConfigManager\<close>, and with a listener it registers the AtomicBroadcast
  service and serves.  A run of \<^verbatim>\<open>main\<close> that makes one of the three calls has the
  orderer type \<^verbatim>\<open>solo\<close>, and a \<^verbatim>\<open>solo\<close> run that serves has made all three before
  \<^verbatim>\<open>solo.New\<close> and \<^verbatim>\<open>Serve\<close>.
\<close>

theorem main_kafka_no_bootstrap:
  "(OrdererType (General (config_Load w)) = ''kafka''
      \<longrightarrow> (\<exists>tr out. main w = Some (tr, out)
             \<and> Call_GenesisBlock \<notin> set tr \<and> Call_retrieveConfiguration \<notin> set tr
             \<and> Call_bootstrapConfigManager \<notin> set tr
             \<and> (\<forall>lis. net_Listen w (ListenAddress (General (config_Load w)))
                         (ListenPort (General (config_Load w))) = Inr lis
                    \<longrightarrow> (\<exists>pre post.
                           tr = pre @ [Call_RegisterAtomicBroadcastServer, Call_Serve] @ post))))
   \<and> (\<forall>tr out. main w = Some (tr, out)
          \<and> (Call_GenesisBlock \<in> set tr \<or> Call_retrieveConfiguration \<in> set tr
              \<or> Call_bootstrapConfigManager \<in> set tr)
        \<longrightarrow> OrdererType (General (config_Load w)) = ''solo'')
   \<and> (\<forall>tr out. main w = Some (tr, out) \<and> OrdererType (General (config_Load w)) = ''solo''
          \<and> Call_Serve \<in> set tr
        \<longrightarrow> (\<exists>pre. tr = pre @ [Call_retrieveConfiguration, Call_bootstrapConfigManager,
                                 Call_solo_New, Call_Serve]
                   \<and> Call_GenesisBlock \<in> set pre))"
proof (intro conjI allI impI)
  assume k: "OrdererType (General (config_Load w)) = ''kafka''"
  from launchKafka_run[of w "config_Load w"] obtain tr out where
    r: "launchKafka w (config_Load w) = Some (tr, out)"
    and n: "Call_GenesisBlock \<notin> set tr" "Call_retrieveConfiguration \<notin> set tr"
      "Call_bootstrapConfigManager \<notin> set tr"
    and s: "\<forall>lis. net_Listen w (ListenAddress (General (config_Load w)))
                     (ListenPort (General (config_Load w))) = Inr lis
             \<longrightarrow> (\<exists>pre post. tr = pre @ [Call_RegisterAtomicBroadcastServer, Call_Serve] @ post)"
    by blast
  have m: "main w = Some (Call_config_Load # tr, out)"
    using k r by (simp add: main_def Let_def)
  have "\<forall>lis. net_Listen w (ListenAddress (General (config_Load w)))
                 (ListenPort (General (config_Load w))) = Inr lis
          \<longrightarrow> (\<exists>pre post. Call_config_Load # tr
                            = pre @ [Call_RegisterAtomicBroadcastServer, Call_Serve] @ post)"
  proof (intro allI impI)
    fix lis
    assume "net_Listen w (ListenAddress (General (config_Load w)))
              (ListenPort (General (config_Load w))) = Inr lis"
    with s obtain pre post where
      "tr = pre @ [Call_RegisterAtomicBroadcastServer, Call_Serve] @ post" by blast
    then have "Call_config_Load # tr
               = (Call_config_Load # pre) @ [Call_RegisterAtomicBroadcastServer, Call_Serve] @ post"
      by simp
    then show "\<exists>pre post. Call_config_Load # tr
                 = pre @ [Call_RegisterAtomicBroadcastServer, Call_Serve] @ post"
      by blast
  qed
  with m n show "\<exists>tr out. main w = Some (tr, out)
             \<and> Call_GenesisBlock \<notin> set tr \<and> Call_retrieveConfiguration \<notin> set tr
             \<and> Call_bootstrapConfigManager \<notin> set tr
             \<and> (\<forall>lis. net_Listen w (ListenAddress (General (config_Load w)))
                         (ListenPort (General (config_Load w))) = Inr lis
                    \<longrightarrow> (\<exists>pre post.
                           tr = pre @ [Call_RegisterAtomicBroadcastServer, Call_Serve] @ post))"
    by (intro exI[of _ "Call_config_Load # tr"] exI[of _ out]) simp
next
  fix tr out
  assume a: "main w = Some (tr, out)
          \<and> (Call_GenesisBlock \<in> set tr \<or> Call_retrieveConfiguration \<in> set tr
              \<or> Call_bootstrapConfigManager \<in> set tr)"
  show "OrdererType (General (config_Load w)) = ''solo''"
  proof (rule ccontr)
    assume ns: "OrdererType (General (config_Load w)) \<noteq> ''solo''"
    show False
    proof (cases "OrdererType (General (config_Load w)) = ''kafka''")
      case True
      from launchKafka_run[of w "config_Load w"] obtain tr' out' where
        "launchKafka w (config_Load w) = Some (tr', out')"
        "Call_GenesisBlock \<notin> set tr'" "Call_retrieveConfiguration \<notin> set tr'"
        "Call_bootstrapConfigManager \<notin> set tr'"
        by blast
      with a ns True show False by (auto simp add: main_def Let_def)
    next
      case False
      with a ns show False by (auto simp add: main_def Let_def)
    qed
  qed
next
  fix tr out
  assume a: "main w = Some (tr, out) \<and> OrdererType (General (config_Load w)) = ''solo''
          \<and> Call_Serve \<in> set tr"
  then obtain tr' where r: "launchSolo w (config_Load w) = Some (tr', out)"
    and tr: "tr = Call_config_Load # tr'"
    by (auto simp add: main_def Let_def)
  with a have "Call_Serve \<in> set tr'" by simp
  with launchSolo_serve_only_solo[OF r] obtain args lis where "out = SoloServing args lis"
    by blast
  with launchSolo_serving[of w "config_Load w" tr' args lis] r obtain tr1 where
    "tr' = [Call_grpc_NewServer, Call_net_Listen, Call_static_New, Call_GenesisBlock]
           @ tr1 @ [Call_retrieveConfiguration, Call_bootstrapConfigManager,
                    Call_solo_New, Call_Serve]"
    by auto
  with tr have "tr = (Call_config_Load # [Call_grpc_NewServer, Call_net_Listen, Call_static_New,
                        Call_GenesisBlock] @ tr1)
                     @ [Call_retrieveConfiguration, Call_bootstrapConfigManager,
                        Call_solo_New, Call_Serve]
                \<and> Call_GenesisBlock \<in> set (Call_config_Load # [Call_grpc_NewServer,
                        Call_net_Listen, Call_static_New, Call_GenesisBlock] @ tr1)"
    by simp
  then show "\<exists>pre. tr = pre @ [Call_retrieveConfiguration, Call_bootstrapConfigManager,
                                 Call_solo_New, Call_Serve]
                   \<and> Call_GenesisBlock \<in> set pre"
    by blast
qed


text \<open>
  A \<^verbatim>\<open>kafka\<close> start and a \<^verbatim>\<open>solo\<close> start with the same collaborators.
\<close>

theorem main_kafka_no_bootstrap_witness:
  "OrdererType (General (config_Load
     (example_world (example_conf ''kafka'' ''/var/ledger'') ''ram'' (Inr example_genesis)
        example_ledger (Inr accept_all)))) = ''kafka''
   \<and> (\<exists>tr out.
         main (example_world (example_conf ''kafka'' ''/var/ledger'') ''ram''
                 (Inr example_genesis) example_ledger (Inr accept_all)) = Some (tr, out)
         \<and> Call_GenesisBlock \<notin> set tr \<and> Call_retrieveConfiguration \<notin> set tr
         \<and> Call_bootstrapConfigManager \<notin> set tr
         \<and> (\<exists>pre post. tr = pre @ [Call_RegisterAtomicBroadcastServer, Call_Serve] @ post))
   \<and> main (example_world (example_conf ''solo'' ''/var/ledger'') ''ram''
             (Inr example_genesis) example_ledger (Inr accept_all))
     = Some ([Call_config_Load, Call_grpc_NewServer, Call_net_Listen, Call_static_New,
              Call_GenesisBlock, Call_os_Getenv, Call_ramledger_New,
              Call_retrieveConfiguration, Call_bootstrapConfigManager, Call_solo_New,
              Call_Serve],
             SoloServing
               \<lparr>queueSize = 1000, batchSize = 10, maxWindowSize = 1000,
                batchTimeout = 10000000000, rl = RAM_ledger 10000 example_genesis\<rparr>
               (Listener ''127.0.0.1'' 5151))
   \<and> (\<exists>pre. [Call_config_Load, Call_grpc_NewServer, Call_net_Listen, Call_static_New,
              Call_GenesisBlock, Call_os_Getenv, Call_ramledger_New,
              Call_retrieveConfiguration, Call_bootstrapConfigManager, Call_solo_New,
              Call_Serve]
             = pre @ [Call_retrieveConfiguration, Call_bootstrapConfigManager,
                      Call_solo_New, Call_Serve]
            \<and> Call_GenesisBlock \<in> set pre)"
proof -
  let ?k = "example_world (example_conf ''kafka'' ''/var/ledger'') ''ram''
              (Inr example_genesis) example_ledger (Inr accept_all)"
  let ?s = "example_world (example_conf ''solo'' ''/var/ledger'') ''ram''
              (Inr example_genesis) example_ledger (Inr accept_all)"
  let ?tr = "[Call_config_Load, Call_grpc_NewServer, Call_net_Listen, Call_static_New,
              Call_GenesisBlock, Call_os_Getenv, Call_ramledger_New,
              Call_retrieveConfiguration, Call_bootstrapConfigManager, Call_solo_New,
              Call_Serve]"
  let ?out = "SoloServing
               \<lparr>queueSize = 1000, batchSize = 10, maxWindowSize = 1000,
                batchTimeout = 10000000000, rl = RAM_ledger 10000 example_genesis\<rparr>
               (Listener ''127.0.0.1'' 5151)"
  have k: "OrdererType (General (config_Load ?k)) = ''kafka''"
    by (simp add: example_world_def example_conf_def)
  have ck: "config_Load ?k = example_conf ''kafka'' ''/var/ledger''"
    by (simp add: example_world_def)
  have cs: "config_Load ?s = example_conf ''solo'' ''/var/ledger''"
    by (simp add: example_world_def)
  have s: "OrdererType (General (config_Load ?s)) = ''solo''"
    by (simp add: example_world_def example_conf_def)
  have m: "main ?s = Some (?tr, ?out)"
    using s by (simp add: main_def Let_def cs
        launchSolo_example_world
          [OF example_all_SUCCESS(1) example_configurations(1) launchSolo_rawledger_example_ram])
  have srv: "Call_Serve \<in> set ?tr" by simp
  from main_kafka_no_bootstrap[of ?k] k have
    "\<exists>tr out. main ?k = Some (tr, out)
       \<and> Call_GenesisBlock \<notin> set tr \<and> Call_retrieveConfiguration \<notin> set tr
       \<and> Call_bootstrapConfigManager \<notin> set tr
       \<and> (\<forall>lis. net_Listen ?k (ListenAddress (General (config_Load ?k)))
                   (ListenPort (General (config_Load ?k))) = Inr lis
              \<longrightarrow> (\<exists>pre post.
                     tr = pre @ [Call_RegisterAtomicBroadcastServer, Call_Serve] @ post))"
    by blast
  then have kafka: "\<exists>tr out. main ?k = Some (tr, out)
       \<and> Call_GenesisBlock \<notin> set tr \<and> Call_retrieveConfiguration \<notin> set tr
       \<and> Call_bootstrapConfigManager \<notin> set tr
       \<and> (\<exists>pre post. tr = pre @ [Call_RegisterAtomicBroadcastServer, Call_Serve] @ post)"
    by (simp add: example_listen)
  from main_kafka_no_bootstrap[of ?s] m s srv have
    solo: "\<exists>pre. ?tr = pre @ [Call_retrieveConfiguration, Call_bootstrapConfigManager,
                              Call_solo_New, Call_Serve]
                 \<and> Call_GenesisBlock \<in> set pre"
    by blast
  from k kafka m solo show ?thesis by blast
qed

end
